theory Spec2Isabelle
  imports Main "HOL-Library.Sublist" "HOL-Library.AList"
begin

section \<open>Python values, exceptions and string methods\<close>

text \<open>
  The module \<^verbatim>\<open>cisco_additional_facts.py\<close> is embedded function by function. Python
  strings are lists of characters; a character stands for the Unicode code point of the
  same number, so the model covers text in the range U+0000 to U+00FF. The character
  classes below are those of CPython for these code points.

  An exception is a value: a function that can raise returns \<open>exn + 'a\<close>, with \<open>Inl\<close>
  the exception raised. \<open>SystemExit\<close> is the one exception here that the clause
  \<^verbatim>\<open>except Exception\<close> does not catch (a bare \<^verbatim>\<open>except:\<close> catches it too).
\<close>

datatype exn =
    IndexError
  | ValueError
  | TypeError
  | AssertionError
  | UnboundLocalError
  | AddressValueError
  | ConnectionError string
  | SystemExit

fun is_Exception :: "exn \<Rightarrow> bool" where
  "is_Exception SystemExit = False"
| "is_Exception _ = True"

definition bindE :: "exn + 'a \<Rightarrow> ('a \<Rightarrow> exn + 'b) \<Rightarrow> exn + 'b" where
  "bindE m f = (case m of Inl e \<Rightarrow> Inl e | Inr x \<Rightarrow> f x)"

text \<open>A \<^verbatim>\<open>for\<close> loop whose body may raise: the first exception ends the loop.\<close>

fun foldE :: "('a \<Rightarrow> 's \<Rightarrow> exn + 's) \<Rightarrow> 'a list \<Rightarrow> 's \<Rightarrow> exn + 's" where
  "foldE body [] st = Inr st"
| "foldE body (x # xs) st = bindE (body x st) (foldE body xs)"

text \<open>
  \<^verbatim>\<open>xs[i]\<close>: \<^verbatim>\<open>xs[-1]\<close> is the last element, and \<^verbatim>\<open>IndexError\<close> is raised
  outside \<open>-len(xs) \<le> i < len(xs)\<close>.
\<close>

definition py_index :: "'a list \<Rightarrow> int \<Rightarrow> exn + 'a" where
  "py_index xs i =
     (if 0 \<le> i \<and> i < int (length xs) then Inr (xs ! nat i)
      else if i < 0 \<and> - int (length xs) \<le> i then Inr (xs ! nat (int (length xs) + i))
      else Inl IndexError)"

definition is_space :: "char \<Rightarrow> bool" where
  "is_space c = (let n = (of_char c :: nat) in
     (9 \<le> n \<and> n \<le> 13) \<or> (28 \<le> n \<and> n \<le> 32) \<or> n = 133 \<or> n = 160)"

definition is_linebreak :: "char \<Rightarrow> bool" where
  "is_linebreak c = (let n = (of_char c :: nat) in
     (10 \<le> n \<and> n \<le> 13) \<or> (28 \<le> n \<and> n \<le> 30) \<or> n = 133)"

definition is_upper :: "char \<Rightarrow> bool" where
  "is_upper c = (let n = (of_char c :: nat) in
     (65 \<le> n \<and> n \<le> 90) \<or> (192 \<le> n \<and> n \<le> 222 \<and> n \<noteq> 215))"

definition is_lower_cased :: "char \<Rightarrow> bool" where
  "is_lower_cased c = (let n = (of_char c :: nat) in
     (97 \<le> n \<and> n \<le> 122) \<or> (224 \<le> n \<and> n \<le> 254 \<and> n \<noteq> 247))"

definition is_alnum :: "char \<Rightarrow> bool" where
  "is_alnum c = (let n = (of_char c :: nat) in
     (48 \<le> n \<and> n \<le> 57) \<or> (65 \<le> n \<and> n \<le> 90) \<or> (97 \<le> n \<and> n \<le> 122) \<or>
     n = 170 \<or> n = 178 \<or> n = 179 \<or> n = 181 \<or> n = 185 \<or> n = 186 \<or>
     (188 \<le> n \<and> n \<le> 190) \<or> (192 \<le> n \<and> n \<noteq> 215 \<and> n \<noteq> 247))"

definition is_ascii_digit :: "char \<Rightarrow> bool" where
  "is_ascii_digit c = (let n = (of_char c :: nat) in 48 \<le> n \<and> n \<le> 57)"

text \<open>
  \<^verbatim>\<open>str.lower\<close>: an upper-case letter is 32 below its lower-case form and has bit 5
  clear, so adding 32 is setting bit 5.
\<close>

fun lower_char :: "char \<Rightarrow> char" where
  "lower_char (Char b0 b1 b2 b3 b4 b5 b6 b7) =
     (if is_upper (Char b0 b1 b2 b3 b4 b5 b6 b7) then Char b0 b1 b2 b3 b4 True b6 b7
      else Char b0 b1 b2 b3 b4 b5 b6 b7)"

definition py_lower :: "string \<Rightarrow> string" where
  "py_lower s = map lower_char s"

text \<open>
  \<^verbatim>\<open>str.upper\<close> and \<^verbatim>\<open>str.capitalize\<close> can leave the range: the capital of U+00B5
  is U+039C and that of U+00FF is U+0178. What they return is therefore either a string
  of the range, \<open>Str s\<close>, or \<open>Beyond\<close>, which stands for a string with a code point
  above U+00FF. The capital of U+00DF is the two letters \<^verbatim>\<open>SS\<close>, its title-case form
  is \<^verbatim>\<open>Ss\<close>. A lower-case letter with a capital in the range has bit 5 set and is 32
  above its capital.
\<close>

datatype pystr = Str string | Beyond

fun append_pystr :: "pystr \<Rightarrow> pystr \<Rightarrow> pystr" where
  "append_pystr (Str a) (Str b) = Str (a @ b)"
| "append_pystr _ _ = Beyond"

fun capital :: "char \<Rightarrow> char" where
  "capital (Char b0 b1 b2 b3 b4 b5 b6 b7) =
     (if is_lower_cased (Char b0 b1 b2 b3 b4 b5 b6 b7) then Char b0 b1 b2 b3 b4 False b6 b7
      else Char b0 b1 b2 b3 b4 b5 b6 b7)"

definition upper_char :: "char \<Rightarrow> pystr" where
  "upper_char c = (let n = (of_char c :: nat) in
     if n = 181 \<or> n = 255 then Beyond
     else if n = 223 then Str ''SS''
     else Str [capital c])"

definition title_char :: "char \<Rightarrow> pystr" where
  "title_char c = (let n = (of_char c :: nat) in
     if n = 181 \<or> n = 255 then Beyond
     else if n = 223 then Str ''Ss''
     else Str [capital c])"

definition py_upper :: "string \<Rightarrow> pystr" where
  "py_upper s = foldr (\<lambda>c acc. append_pystr (upper_char c) acc) s (Str [])"

text \<open>\<^verbatim>\<open>str.capitalize\<close>: the first character in title case, the others in lower case.\<close>

definition py_capitalize :: "string \<Rightarrow> pystr" where
  "py_capitalize s =
     (case s of [] \<Rightarrow> Str [] | c # cs \<Rightarrow> append_pystr (title_char c) (Str (map lower_char cs)))"

text \<open>\<^verbatim>\<open>s.startswith(p)\<close> for a string \<open>s\<close> of the range.\<close>

fun startswith_pystr :: "string \<Rightarrow> pystr \<Rightarrow> bool" where
  "startswith_pystr s (Str p) = prefix p s"
| "startswith_pystr s Beyond = False"

definition py_isalnum :: "string \<Rightarrow> bool" where
  "py_isalnum s = (s \<noteq> [] \<and> list_all is_alnum s)"

definition startswith :: "string \<Rightarrow> string \<Rightarrow> bool" where
  "startswith s p = prefix p s"

text \<open>\<^verbatim>\<open>sub in s\<close> for strings.\<close>

fun contains :: "string \<Rightarrow> string \<Rightarrow> bool" where
  "contains [] sub = (sub = [])"
| "contains (c # cs) sub = (prefix sub (c # cs) \<or> contains cs sub)"

text \<open>\<^verbatim>\<open>s.split()\<close>: the maximal runs of characters that are not whitespace.\<close>

function py_split :: "string \<Rightarrow> string list" where
  "py_split [] = []"
| "py_split (c # cs) =
     (if is_space c then py_split cs
      else (c # takeWhile (\<lambda>x. \<not> is_space x) cs) # py_split (dropWhile (\<lambda>x. \<not> is_space x) cs))"
  by pat_completeness auto
termination
  by (relation "measure length") (auto simp: le_imp_less_Suc length_dropWhile_le)

text \<open>\<^verbatim>\<open>s.split(sep)\<close> for a separator of one character: never an empty list.\<close>

fun split_on :: "char \<Rightarrow> string \<Rightarrow> string list" where
  "split_on sep [] = [[]]"
| "split_on sep (c # cs) =
     (if c = sep then [] # split_on sep cs
      else (case split_on sep cs of [] \<Rightarrow> [[c]] | w # ws \<Rightarrow> (c # w) # ws))"

text \<open>
  \<^verbatim>\<open>s.splitlines()\<close>: the first argument is the line read so far, reversed.
  \<^verbatim>\<open>\r\n\<close> is one line boundary.
\<close>

fun splitlines_from :: "string \<Rightarrow> string \<Rightarrow> string list" where
  "splitlines_from cur [] = (if cur = [] then [] else [rev cur])"
| "splitlines_from cur (c # cs) =
     (if c = CHR 0x0D then
        (case cs of
           [] \<Rightarrow> [rev cur]
         | d # ds \<Rightarrow> if d = CHR 0x0A then rev cur # splitlines_from [] ds
                     else rev cur # splitlines_from [] (d # ds))
      else if is_linebreak c then rev cur # splitlines_from [] cs
      else splitlines_from (c # cur) cs)"

definition splitlines :: "string \<Rightarrow> string list" where
  "splitlines s = splitlines_from [] s"

text \<open>\<^verbatim>\<open>s.replace(old, new)\<close>: occurrences are found from the left and do not overlap.\<close>

function py_replace :: "string \<Rightarrow> string \<Rightarrow> string \<Rightarrow> string" where
  "py_replace old new [] = (if old = [] then new else [])"
| "py_replace old new (c # cs) =
     (if old = [] then new @ c # py_replace old new cs
      else if prefix old (c # cs) then new @ py_replace old new (drop (length old) (c # cs))
      else c # py_replace old new cs)"
  by pat_completeness auto
termination
  by (relation "measure (\<lambda>(old, new, s). length s)") auto

definition py_strip :: "string \<Rightarrow> string" where
  "py_strip s = rev (dropWhile is_space (rev (dropWhile is_space s)))"

text \<open>\<^verbatim>\<open>sep.join(xs)\<close>.\<close>

fun py_join :: "string \<Rightarrow> string list \<Rightarrow> string" where
  "py_join sep [] = []"
| "py_join sep [x] = x"
| "py_join sep (x # y # ys) = x @ sep @ py_join sep (y # ys)"

text \<open>\<^verbatim>\<open>s[i:j]\<close> for \<open>0 \<le> i \<le> j\<close>.\<close>

definition slice :: "'a list \<Rightarrow> nat \<Rightarrow> nat \<Rightarrow> 'a list" where
  "slice xs i j = take (j - i) (drop i xs)"

text \<open>The number a string of decimal digits writes.\<close>

definition decimal :: "string \<Rightarrow> int" where
  "decimal s = foldl (\<lambda>n c. 10 * n + (of_char c - 48)) 0 s"

text \<open>
  \<^verbatim>\<open>int(s)\<close>: the whitespace that is dropped at both ends is U+0009 to U+000D, U+0020,
  U+0085 and U+00A0; then come an optional sign and decimal digits, which single
  underscores may separate. \<^verbatim>\<open>int(None)\<close> raises \<^verbatim>\<open>TypeError\<close>.
\<close>

definition is_int_space :: "char \<Rightarrow> bool" where
  "is_int_space c = (let n = (of_char c :: nat) in
     (9 \<le> n \<and> n \<le> 13) \<or> n = 32 \<or> n = 133 \<or> n = 160)"

definition py_int :: "string \<Rightarrow> exn + int" where
  "py_int s =
     (let t = rev (dropWhile is_int_space (rev (dropWhile is_int_space s)));
          negative = (t \<noteq> [] \<and> hd t = CHR ''-'');
          u = (if t \<noteq> [] \<and> (hd t = CHR ''-'' \<or> hd t = CHR ''+'') then tl t else t);
          groups = split_on CHR ''_'' u
      in if u = [] \<or> \<not> list_all (\<lambda>g. g \<noteq> [] \<and> list_all is_ascii_digit g) groups
         then Inl ValueError
         else Inr ((if negative then - 1 else 1) * decimal (concat groups)))"

definition py_int_of :: "string option \<Rightarrow> exn + int" where
  "py_int_of v = (case v of None \<Rightarrow> Inl TypeError | Some s \<Rightarrow> py_int s)"

text \<open>\<^verbatim>\<open>str(v)\<close> for a value that is a string or \<^verbatim>\<open>None\<close>.\<close>

definition py_str_of :: "string option \<Rightarrow> string" where
  "py_str_of v = (case v of None \<Rightarrow> ''None'' | Some s \<Rightarrow> s)"

section \<open>Text normalizers\<close>

text \<open>
  \<^verbatim>\<open>format_mac_address\<close>: the body of the \<^verbatim>\<open>try\<close> block, where a failed
  \<^verbatim>\<open>assert\<close> raises, and the function with its bare \<^verbatim>\<open>except\<close>, which returns
  the argument.
\<close>

definition format_mac_address_try :: "string \<Rightarrow> exn + string" where
  "format_mac_address_try mac_address =
     (let mac = py_lower (py_replace ''-'' '''' (py_replace '':'' '''' (py_replace ''.'' '''' mac_address)));
          mac = py_join '''' (py_split mac)
      in if length mac \<noteq> 12 then Inl AssertionError
         else if \<not> py_isalnum mac then Inl AssertionError
         else Inr (py_join '':'' (map (\<lambda>i. slice mac i (i + 2)) [0, 2, 4, 6, 8, 10])))"

definition format_mac_address :: "string \<Rightarrow> string" where
  "format_mac_address mac_address =
     (case format_mac_address_try mac_address of Inl e \<Rightarrow> mac_address | Inr mac \<Rightarrow> mac)"

section \<open>IPv4 addresses\<close>

text \<open>
  \<^verbatim>\<open>ipaddress.IPv4Address\<close> and its property \<^verbatim>\<open>is_private\<close> belong to the Python
  standard library; they are written here as CPython 3.11 has them. An address is the
  integer its four octets make. A \<^verbatim>\<open>ValueError\<close> of the octet parser is raised again
  as \<^verbatim>\<open>AddressValueError\<close>.
\<close>

fun mapE :: "('a \<Rightarrow> exn + 'b) \<Rightarrow> 'a list \<Rightarrow> exn + 'b list" where
  "mapE f [] = Inr []"
| "mapE f (x # xs) = bindE (f x) (\<lambda>y. bindE (mapE f xs) (\<lambda>ys. Inr (y # ys)))"

definition parse_octet :: "string \<Rightarrow> exn + int" where
  "parse_octet octet_str =
     (if octet_str = [] then Inl ValueError
      else if \<not> list_all is_ascii_digit octet_str then Inl ValueError
      else if length octet_str > 3 then Inl ValueError
      else if octet_str \<noteq> ''0'' \<and> hd octet_str = CHR ''0'' then Inl ValueError
      else if decimal octet_str > 255 then Inl ValueError
      else Inr (decimal octet_str))"

definition ip_int_from_string :: "string \<Rightarrow> exn + int" where
  "ip_int_from_string ip_str =
     (if ip_str = [] then Inl AddressValueError
      else let octets = split_on CHR ''.'' ip_str in
        if length octets \<noteq> 4 then Inl AddressValueError
        else (case mapE parse_octet octets of
                Inl e \<Rightarrow> Inl AddressValueError
              | Inr bs \<Rightarrow> Inr (foldl (\<lambda>n b. 256 * n + b) 0 bs)))"

definition IPv4Address :: "string \<Rightarrow> exn + int" where
  "IPv4Address address =
     (if contains address ''/'' then Inl AddressValueError else ip_int_from_string address)"

definition ipv4 :: "int \<Rightarrow> int \<Rightarrow> int \<Rightarrow> int \<Rightarrow> int" where
  "ipv4 a b c d = ((a * 256 + b) * 256 + c) * 256 + d"

text \<open>A network is its address and the length of its prefix.\<close>

definition in_network :: "int \<Rightarrow> int \<times> nat \<Rightarrow> bool" where
  "in_network a net = (case net of (base, plen) \<Rightarrow> a div 2 ^ (32 - plen) = base div 2 ^ (32 - plen))"

definition private_networks :: "(int \<times> nat) list" where
  "private_networks =
     [(ipv4 0 0 0 0, 8), (ipv4 10 0 0 0, 8), (ipv4 127 0 0 0, 8), (ipv4 169 254 0 0, 16),
      (ipv4 172 16 0 0, 12), (ipv4 192 0 0 0, 24), (ipv4 192 0 0 170, 31), (ipv4 192 0 2 0, 24),
      (ipv4 192 168 0 0, 16), (ipv4 198 18 0 0, 15), (ipv4 198 51 100 0, 24),
      (ipv4 203 0 113 0, 24), (ipv4 240 0 0 0, 4), (ipv4 255 255 255 255, 32)]"

definition private_networks_exceptions :: "(int \<times> nat) list" where
  "private_networks_exceptions = [(ipv4 192 0 0 9, 32), (ipv4 192 0 0 10, 32)]"

definition is_private :: "int \<Rightarrow> bool" where
  "is_private a =
     (list_ex (in_network a) private_networks
      \<and> list_all (\<lambda>net. \<not> in_network a net) private_networks_exceptions)"

section \<open>Routes\<close>

text \<open>
  The dictionaries the parsers build. A key that a dictionary may lack, or whose value
  may be \<^verbatim>\<open>None\<close>, is an option. The fields carry the keys of the source after a
  prefix that names the dictionary.
\<close>

record next_hop =
  nh_address :: "string option"
  nh_interface :: "string option"

record route =
  rt_route :: string
  rt_kind :: pystr
  rt_next_hop :: "next_hop list option"

definition ROUTE_TYPES :: "string list" where
  "ROUTE_TYPES = [''BGP'', ''connected'', ''OSPF'', ''static'']"

text \<open>
  The condition both parsers apply to a prefix before they keep a route:
  \<^verbatim>\<open>addr_obj = ipaddress.IPv4Address(route.split('/')[0])\<close>, then
  \<^verbatim>\<open>addr_obj.is_private or route == '0.0.0.0/0' or route_type.lower() == 'connected'\<close>.
  The address is parsed first, so a prefix that is no IPv4 address raises.
\<close>

definition is_routable_for_collection :: "string \<Rightarrow> bool \<Rightarrow> exn + bool" where
  "is_routable_for_collection route connected =
     bindE (py_index (split_on CHR ''/'' route) 0) (\<lambda>a.
     bindE (IPv4Address a) (\<lambda>addr_obj.
     Inr (is_private addr_obj \<or> route = ''0.0.0.0/0'' \<or> connected)))"

subsection \<open>Dialect A: \<^verbatim>\<open>_get_routes_ios\<close>\<close>

definition kind_ios :: "string \<Rightarrow> pystr" where
  "kind_ios route_type =
     (if py_lower route_type \<notin> set [''bgp'', ''eigrp'', ''isis''] then py_capitalize route_type
      else py_upper route_type)"

text \<open>The body of the loop for a route type other than OSPF; the state is \<^verbatim>\<open>routes\<close>.\<close>

definition ios_line :: "string \<Rightarrow> pystr \<Rightarrow> string \<Rightarrow> route list \<Rightarrow> exn + route list" where
  "ios_line route_type first_letter line routes =
     (if startswith_pystr line (append_pystr first_letter (Str '' ''))
         \<or> startswith_pystr line (append_pystr first_letter (Str ''*'')) then
        let splitter = py_split line in
        bindE (py_index splitter 1) (\<lambda>pfx.
        bindE (is_routable_for_collection pfx (py_lower route_type = ''connected'')) (\<lambda>keep.
          if keep then
            let route_details = \<lparr>rt_route = pfx, rt_kind = kind_ios route_type, rt_next_hop = None\<rparr> in
            if contains line ''directly connected'' then
              bindE (py_index splitter (- 1)) (\<lambda>iface.
                Inr (routes @ [route_details\<lparr>rt_next_hop :=
                  Some [\<lparr>nh_address = None, nh_interface = Some iface\<rparr>]\<rparr>]))
            else if contains line '' via '' then
              bindE (py_index splitter 4) (\<lambda>addr.
                Inr (routes @ [route_details\<lparr>rt_next_hop :=
                  Some [\<lparr>nh_address = Some (py_replace '','' '''' addr), nh_interface = None\<rparr>]\<rparr>]))
            else Inr (routes @ [route_details])
          else Inr routes))
      else Inr routes)"

text \<open>
  The \<^verbatim>\<open>while\<close> loop that steps over the codes E1, E2, IA, N1 and N2: both column
  pointers move right by one, and reading past the last token raises.
\<close>

function skip_codes :: "string list \<Rightarrow> nat \<Rightarrow> nat \<Rightarrow> string \<Rightarrow> string \<Rightarrow> exn + string \<times> string" where
  "skip_codes splitter r n route next_hop_address =
     (if route \<in> set [''E1'', ''E2'', ''IA'', ''N1'', ''N2''] then
        (if Suc r < length splitter then
           (if Suc n < length splitter
            then skip_codes splitter (Suc r) (Suc n) (splitter ! Suc r) (splitter ! Suc n)
            else Inl IndexError)
         else Inl IndexError)
      else Inr (route, next_hop_address))"
  by pat_completeness auto
termination
  by (relation "measure (\<lambda>(splitter, r, n, route, nh). length splitter - r)") auto

text \<open>
  The state of the OSPF loop: \<^verbatim>\<open>routes\<close>, \<^verbatim>\<open>first_line\<close> and the variable
  \<^verbatim>\<open>route\<close>, which has no value before the first line that starts with O.
\<close>

record ospf_state =
  os_routes :: "route list"
  os_first_line :: bool
  os_route :: "string option"

definition ospf_route :: "string \<Rightarrow> string \<Rightarrow> string \<Rightarrow> route" where
  "ospf_route pfx addr iface =
     \<lparr>rt_route = pfx, rt_kind = Str ''OSPF'',
      rt_next_hop = Some [\<lparr>nh_address = Some (py_replace '','' '''' addr), nh_interface = Some iface\<rparr>]\<rparr>"

definition ospf_line :: "string \<Rightarrow> ospf_state \<Rightarrow> exn + ospf_state" where
  "ospf_line line st =
     (if startswith line ''O '' \<or> startswith line ''O*'' then
        let splitter = py_split line in
        if length splitter < 3 then
          bindE (py_index splitter 1) (\<lambda>pfx.
            Inr (st\<lparr>os_first_line := False, os_route := Some pfx\<rparr>))
        else
          bindE (py_index splitter 1) (\<lambda>route0.
          bindE (py_index splitter 4) (\<lambda>addr0.
          bindE (skip_codes splitter 1 4 route0 addr0) (\<lambda>(pfx, next_hop_address).
          bindE (is_routable_for_collection pfx False) (\<lambda>keep.
            if keep then
              bindE (py_index splitter (- 1)) (\<lambda>iface.
                Inr (st\<lparr>os_routes := os_routes st @ [ospf_route pfx next_hop_address iface],
                        os_first_line := True, os_route := Some pfx\<rparr>))
            else Inr (st\<lparr>os_first_line := True, os_route := Some pfx\<rparr>)))))
      else if \<not> os_first_line st then
        let splitter = py_split line in
        (case os_route st of
           None \<Rightarrow> Inl UnboundLocalError
         | Some pfx \<Rightarrow>
             bindE (is_routable_for_collection pfx False) (\<lambda>keep.
               if keep then
                 bindE (py_index splitter 2) (\<lambda>addr.
                 bindE (py_index splitter (- 1)) (\<lambda>iface.
                   Inr (st\<lparr>os_routes := os_routes st @ [ospf_route pfx addr iface]\<rparr>)))
               else Inr st))
      else Inr st)"

text \<open>\<^verbatim>\<open>_get_routes_ios\<close> from the lines of the command's output on.\<close>

definition get_routes_ios_lines :: "string \<Rightarrow> string list \<Rightarrow> exn + route list" where
  "get_routes_ios_lines route_type lines =
     (if py_lower route_type \<noteq> ''ospf'' then
        bindE (py_index route_type 0) (\<lambda>c.
          foldE (ios_line route_type (py_upper [c])) lines [])
      else
        bindE (foldE ospf_line lines \<lparr>os_routes = [], os_first_line = True, os_route = None\<rparr>)
          (\<lambda>st. Inr (os_routes st)))"

subsection \<open>Dialect B: \<^verbatim>\<open>_get_routes_nxos\<close>\<close>

text \<open>
  The parser appends the dictionary \<^verbatim>\<open>route_obj\<close> to \<^verbatim>\<open>routes\<close> and may write to
  it afterwards, so the dictionaries live in a store: \<^verbatim>\<open>routes\<close> and \<^verbatim>\<open>route_obj\<close>
  hold positions in \<open>nx_heap\<close>. A new dictionary has no key \<^verbatim>\<open>next_hop\<close>.
\<close>

record nxos_state =
  nx_heap :: "route list"
  nx_routes :: "nat list"
  nx_next_hops :: "next_hop list"
  nx_route_obj :: "nat option"

definition kind_nxos :: "string \<Rightarrow> pystr" where
  "kind_nxos route_type =
     (if py_lower route_type \<notin> set [''bgp'', ''eigrp'', ''isis'', ''ospf''] then py_capitalize route_type
      else py_upper route_type)"

text \<open>\<^verbatim>\<open>route_obj['next_hop'] = next_hops; routes.append(route_obj)\<close>.\<close>

definition nxos_flush :: "nat \<Rightarrow> nxos_state \<Rightarrow> nxos_state" where
  "nxos_flush r st =
     st\<lparr>nx_heap := (nx_heap st)[r := (nx_heap st ! r)\<lparr>rt_next_hop := Some (nx_next_hops st)\<rparr>],
        nx_routes := nx_routes st @ [r]\<rparr>"

text \<open>
  The next hop of a \<^verbatim>\<open>via\<close> line. The \<^verbatim>\<open>try\<close> block parses the address and, for
  the route types connected and ospf, reads the third token; its bare \<^verbatim>\<open>except\<close>
  answers either failure by taking the token for an interface name.
\<close>

definition nxos_hop_try :: "string \<Rightarrow> string list \<Rightarrow> string \<Rightarrow> exn + string option" where
  "nxos_hop_try route_type splitter next_hop_address =
     bindE (IPv4Address next_hop_address) (\<lambda>addr_obj.
       if py_lower route_type = ''connected'' \<or> py_lower route_type = ''ospf''
       then bindE (py_index splitter 2) (\<lambda>iface. Inr (Some iface))
       else Inr None)"

definition nxos_hop :: "string \<Rightarrow> string list \<Rightarrow> string \<Rightarrow> next_hop" where
  "nxos_hop route_type splitter next_hop_address =
     (case nxos_hop_try route_type splitter next_hop_address of
        Inr next_hop_interface \<Rightarrow>
          \<lparr>nh_address = Some next_hop_address, nh_interface = next_hop_interface\<rparr>
      | Inl e \<Rightarrow> \<lparr>nh_address = None, nh_interface = Some next_hop_address\<rparr>)"

definition nxos_line :: "string \<Rightarrow> string \<Rightarrow> nxos_state \<Rightarrow> exn + nxos_state" where
  "nxos_line route_type line st =
     (if contains line ''ubest'' then
        let st1 = (case nx_route_obj st of Some r \<Rightarrow> nxos_flush r st | None \<Rightarrow> st);
            st2 = st1\<lparr>nx_next_hops := []\<rparr>
        in
        bindE (py_index (py_split line) 0) (\<lambda>tok.
          let pfx = py_replace '','' '''' tok in
          bindE (is_routable_for_collection pfx (py_lower route_type = ''connected'')) (\<lambda>keep.
            if keep then
              Inr (st2\<lparr>nx_heap := nx_heap st2 @
                         [\<lparr>rt_route = pfx, rt_kind = kind_nxos route_type, rt_next_hop = None\<rparr>],
                       nx_route_obj := Some (length (nx_heap st2))\<rparr>)
            else Inr st2))
      else if contains line ''via'' then
        (case nx_route_obj st of
           None \<Rightarrow> Inr st
         | Some r \<Rightarrow>
             let splitter = py_split (py_replace '','' '''' line) in
             bindE (py_index splitter 1) (\<lambda>tok.
             bindE (py_index (split_on CHR ''%'' tok) 0) (\<lambda>next_hop_address.
               Inr (st\<lparr>nx_next_hops := nx_next_hops st @ [nxos_hop route_type splitter next_hop_address]\<rparr>))))
      else Inr st)"

text \<open>
  After the loop: \<^verbatim>\<open>if next_hops:\<close> writes to \<^verbatim>\<open>route_obj\<close>, which raises
  \<^verbatim>\<open>TypeError\<close> if it is \<^verbatim>\<open>None\<close>. The result is \<^verbatim>\<open>routes\<close> read through the store.
\<close>

definition nxos_finish :: "nxos_state \<Rightarrow> exn + route list" where
  "nxos_finish st =
     (if nx_next_hops st \<noteq> [] then
        (case nx_route_obj st of
           None \<Rightarrow> Inl TypeError
         | Some r \<Rightarrow> let st' = nxos_flush r st in Inr (map (\<lambda>p. nx_heap st' ! p) (nx_routes st')))
      else Inr (map (\<lambda>p. nx_heap st ! p) (nx_routes st)))"

definition get_routes_nxos_lines :: "string \<Rightarrow> string list \<Rightarrow> exn + route list" where
  "get_routes_nxos_lines route_type lines =
     bindE (foldE (nxos_line route_type) lines
              \<lparr>nx_heap = [], nx_routes = [], nx_next_hops = [], nx_route_obj = None\<rparr>)
       nxos_finish"

section \<open>The command runner and the log\<close>

text \<open>
  \<^verbatim>\<open>run_commands\<close> is imported from the Ansible collection; the module only calls it.
  It is a component of the record that stands for the \<^verbatim>\<open>AnsibleModule\<close> object: given
  the commands and \<^verbatim>\<open>check_rc\<close>, it takes the device from one state to the next and
  returns one output per command, or raises. The state of the device is any type \<open>'d\<close>.
  The other components are what Ansible hands to the module: the parameters, where the
  value of a parameter that was not supplied is \<^verbatim>\<open>None\<close>, and the check mode.
\<close>

record 'd ansible_module =
  params :: "string \<rightharpoonup> string option"
  check_mode :: bool
  connection :: "string list \<Rightarrow> bool \<Rightarrow> 'd \<Rightarrow> (exn + string list) \<times> 'd"

text \<open>What \<^verbatim>\<open>logging.warning\<close> and \<^verbatim>\<open>logging.error\<close> are called with.\<close>

datatype log_entry = LogWarning string | LogWarningExn exn | LogError string

text \<open>
  A function that runs commands maps the state of the device to its outcome, the new
  state and the log entries it wrote. The log is only ever written.
\<close>

type_synonym ('d, 'a) prog = "'d \<Rightarrow> (exn + 'a) \<times> 'd \<times> log_entry list"

definition returnP :: "'a \<Rightarrow> ('d, 'a) prog" where
  "returnP x = (\<lambda>d. (Inr x, d, []))"

definition liftE :: "exn + 'a \<Rightarrow> ('d, 'a) prog" where
  "liftE r = (\<lambda>d. (r, d, []))"

definition logP :: "log_entry list \<Rightarrow> ('d, unit) prog" where
  "logP entries = (\<lambda>d. (Inr (), d, entries))"

definition bindP :: "('d, 'a) prog \<Rightarrow> ('a \<Rightarrow> ('d, 'b) prog) \<Rightarrow> ('d, 'b) prog" where
  "bindP m f = (\<lambda>d.
     case m d of
       (Inl e, d1, l1) \<Rightarrow> (Inl e, d1, l1)
     | (Inr x, d1, l1) \<Rightarrow> (case f x d1 of (r, d2, l2) \<Rightarrow> (r, d2, l1 @ l2)))"

text \<open>
  \<^verbatim>\<open>try: m  except Exception as e: h e\<close>. An exception that is no \<^verbatim>\<open>Exception\<close>
  passes through.
\<close>

definition catch_Exception :: "('d, 'a) prog \<Rightarrow> (exn \<Rightarrow> ('d, 'a) prog) \<Rightarrow> ('d, 'a) prog" where
  "catch_Exception m h = (\<lambda>d.
     case m d of
       (Inl e, d1, l1) \<Rightarrow>
         if is_Exception e then (case h e d1 of (r, d2, l2) \<Rightarrow> (r, d2, l1 @ l2))
         else (Inl e, d1, l1)
     | (Inr x, d1, l1) \<Rightarrow> (Inr x, d1, l1))"

text \<open>A \<^verbatim>\<open>for\<close> loop whose body runs commands.\<close>

fun foldP :: "('a \<Rightarrow> 's \<Rightarrow> ('d, 's) prog) \<Rightarrow> 'a list \<Rightarrow> 's \<Rightarrow> ('d, 's) prog" where
  "foldP body [] st = returnP st"
| "foldP body (x # xs) st = bindP (body x st) (foldP body xs)"

definition run_commands :: "'d ansible_module \<Rightarrow> string list \<Rightarrow> bool \<Rightarrow> ('d, string list) prog" where
  "run_commands module commands check_rc = (\<lambda>d.
     case connection module commands check_rc d of (r, d') \<Rightarrow> (r, d', []))"

text \<open>
  Every extractor starts with
  \<^verbatim>\<open>stdout = run_commands(module, ['term len 0', cmd]); lines = stdout[1].splitlines()\<close>.
\<close>

definition command_output :: "'d ansible_module \<Rightarrow> string \<Rightarrow> bool \<Rightarrow> ('d, string) prog" where
  "command_output module cmd check_rc =
     bindP (run_commands module [''term len 0'', cmd] check_rc) (\<lambda>stdout.
       liftE (py_index stdout 1))"

definition command_lines :: "'d ansible_module \<Rightarrow> string \<Rightarrow> bool \<Rightarrow> ('d, string list) prog" where
  "command_lines module cmd check_rc =
     bindP (command_output module cmd check_rc) (\<lambda>out. returnP (splitlines out))"

section \<open>The route extractor\<close>

text \<open>\<^verbatim>\<open>if vrf:\<close> holds for a string that is not empty.\<close>

definition truthy :: "string option \<Rightarrow> bool" where
  "truthy v = (case v of None \<Rightarrow> False | Some s \<Rightarrow> s \<noteq> [])"

definition get_routes_ios :: "'d ansible_module \<Rightarrow> string \<Rightarrow> string option \<Rightarrow> ('d, route list) prog" where
  "get_routes_ios module route_type vrf =
     (let cmd = (if truthy vrf
                 then ''show ip route vrf '' @ py_str_of vrf @ '' secondary '' @ py_lower route_type
                 else ''show ip route secondary '' @ py_lower route_type)
      in bindP (command_lines module cmd True) (\<lambda>lines.
           liftE (get_routes_ios_lines route_type lines)))"

text \<open>The route type \<^verbatim>\<open>connected\<close> is asked for as \<^verbatim>\<open>direct\<close>.\<close>

definition get_routes_nxos :: "'d ansible_module \<Rightarrow> string \<Rightarrow> string option \<Rightarrow> ('d, route list) prog" where
  "get_routes_nxos module route_type vrf =
     (let rt = (if route_type = ''connected'' then ''direct'' else route_type);
          cmd = (if truthy vrf
                 then ''show ip route vrf '' @ py_str_of vrf @ '' '' @ py_lower rt @ '' | begin ubest''
                 else ''show ip route '' @ py_lower rt @ '' | begin ubest'')
      in bindP (command_lines module cmd True) (\<lambda>lines.
           liftE (get_routes_nxos_lines route_type lines)))"

definition get_routes ::
  "'d ansible_module \<Rightarrow> string \<Rightarrow> string \<Rightarrow> string option \<Rightarrow> ('d, route list) prog" where
  "get_routes module operating_system route_type vrf =
     (if py_upper operating_system = Str ''IOS'' then get_routes_ios module route_type vrf
      else if py_upper operating_system = Str ''NXOS'' then get_routes_nxos module route_type vrf
      else bindP (logP [LogError ''Unknown operating system'']) (\<lambda>u. returnP []))"

text \<open>
  The loop over \<^verbatim>\<open>ROUTE_TYPES\<close> that \<^verbatim>\<open>get_vrfs\<close> and \<^verbatim>\<open>run_module\<close> both have:
  \<^verbatim>\<open>try: routes.extend(get_routes(...))  except Exception as e: logging.warning(e)\<close>.
\<close>

definition routes_of_kind ::
  "'d ansible_module \<Rightarrow> string \<Rightarrow> string option \<Rightarrow> string \<Rightarrow> route list \<Rightarrow> ('d, route list) prog" where
  "routes_of_kind module operating_system vrf route_type routes =
     catch_Exception
       (bindP (get_routes module operating_system route_type vrf) (\<lambda>found. returnP (routes @ found)))
       (\<lambda>e. bindP (logP [LogWarningExn e]) (\<lambda>u. returnP routes))"

definition routes_of_all_kinds ::
  "'d ansible_module \<Rightarrow> string \<Rightarrow> string option \<Rightarrow> ('d, route list) prog" where
  "routes_of_all_kinds module operating_system vrf =
     foldP (routes_of_kind module operating_system vrf) ROUTE_TYPES []"

section \<open>The other extractors\<close>

subsection \<open>\<^verbatim>\<open>get_vrfs\<close>\<close>

record vrf =
  vrf_name :: string
  vrf_interfaces :: "string list option"
  vrf_routes :: "route list"

text \<open>The interfaces of a VRF, from the last token of its line.\<close>

definition vrf_interfaces_of :: "string \<Rightarrow> exn + string list option" where
  "vrf_interfaces_of last_token =
     (if \<not> startswith last_token ''ipv'' then
        let vrf_interfaces = split_on CHR '','' last_token in
        bindE (py_index vrf_interfaces 0) (\<lambda>first.
          Inr (if first = ''--'' then None else Some vrf_interfaces))
      else Inr None)"

definition vrf_line :: "'d ansible_module \<Rightarrow> string \<Rightarrow> string \<Rightarrow> vrf list \<Rightarrow> ('d, vrf list) prog" where
  "vrf_line module operating_system line vrfs =
     (let splitter = py_split line in
      bindP (liftE (py_index splitter 0)) (\<lambda>name.
      bindP (liftE (bindE (py_index splitter (- 1)) vrf_interfaces_of)) (\<lambda>interfaces.
      bindP (routes_of_all_kinds module operating_system (Some name)) (\<lambda>routes.
        returnP (vrfs @ [\<lparr>vrf_name = name, vrf_interfaces = interfaces, vrf_routes = routes\<rparr>])))))"

definition get_vrfs :: "'d ansible_module \<Rightarrow> string \<Rightarrow> ('d, vrf list) prog" where
  "get_vrfs module operating_system =
     bindP (command_lines module ''show vrf'' True) (\<lambda>lines.
       if length lines > 1 then foldP (vrf_line module operating_system) (drop 1 lines) []
       else returnP [])"

subsection \<open>\<^verbatim>\<open>get_route_neighbors\<close>\<close>

text \<open>The two dictionaries a neighbor can be, told apart by \<^verbatim>\<open>routing_protocol\<close>.\<close>

datatype route_neighbor =
    OSPF_neighbor (neighbor_address: string) (neighbor_id: string) (connection_state: string)
      (connected_interface: string) (priority: string)
  | BGP_neighbor (neighbor_address: string) (neighbor_as_num: string)

text \<open>A row of the OSPF table is unpacked into six names, which raises unless it has six columns.\<close>

definition ospf_neighbor_line :: "string \<Rightarrow> route_neighbor list \<Rightarrow> exn + route_neighbor list" where
  "ospf_neighbor_line line route_neighbors =
     (case py_split (py_replace '' -'' '''' line) of
        [nid, prio, state, dead_time, address, interface] \<Rightarrow>
          Inr (route_neighbors @ [OSPF_neighbor address nid state interface prio])
      | _ \<Rightarrow> Inl ValueError)"

text \<open>
  A row of the BGP table: the \<^verbatim>\<open>try\<close> block reads the first token and parses it as an
  address, and its bare \<^verbatim>\<open>except\<close> goes on to the next row.
\<close>

definition bgp_neighbor_line :: "string \<Rightarrow> route_neighbor list \<Rightarrow> exn + route_neighbor list" where
  "bgp_neighbor_line line route_neighbors =
     (let splitter = py_split line in
      case bindE (py_index splitter 0) IPv4Address of
        Inl e \<Rightarrow> Inr route_neighbors
      | Inr addr_obj \<Rightarrow>
          bindE (py_index splitter 0) (\<lambda>address.
          bindE (py_index splitter 2) (\<lambda>as_num.
            Inr (route_neighbors @ [BGP_neighbor address as_num]))))"

definition get_route_neighbors :: "'d ansible_module \<Rightarrow> ('d, route_neighbor list) prog" where
  "get_route_neighbors module =
     bindP (command_lines module ''show ip ospf neighbor | begin Neighbor'' True) (\<lambda>lines.
     bindP (liftE (foldE ospf_neighbor_line (drop 1 lines) [])) (\<lambda>ospf.
     bindP (command_lines module ''show ip bgp summary | begin Neighbor'' True) (\<lambda>lines2.
       liftE (foldE bgp_neighbor_line (drop 1 lines2) ospf))))"

subsection \<open>\<^verbatim>\<open>get_mac_address_table\<close>\<close>

record mac_address =
  ma_mac_address :: string
  ma_vlan_id :: string

record mac_entry =
  me_interface :: string
  me_mac_addresses :: "mac_address list"

text \<open>
  The dictionary from interface to its list of addresses keeps the order in which the
  interfaces were first seen.
\<close>

definition mac_line ::
  "string \<Rightarrow> (string \<times> mac_address list) list \<Rightarrow> exn + (string \<times> mac_address list) list" where
  "mac_line line mac_address_table =
     (if startswith line ''* '' then
        let splitter = py_split line in
        bindE (py_index splitter 1) (\<lambda>vlan.
        bindE (py_index splitter 2) (\<lambda>raw.
        bindE (py_index splitter 7) (\<lambda>interface.
          let known = (case map_of mac_address_table interface of None \<Rightarrow> [] | Some ms \<Rightarrow> ms) in
          Inr (AList.update interface
                 (known @ [\<lparr>ma_mac_address = format_mac_address raw, ma_vlan_id = vlan\<rparr>])
                 mac_address_table))))
      else Inr mac_address_table)"

definition get_mac_address_table :: "'d ansible_module \<Rightarrow> ('d, mac_entry list option) prog" where
  "get_mac_address_table module =
     bindP (command_lines module ''show mac address-table dynamic'' False) (\<lambda>lines.
     bindP (liftE (foldE mac_line lines [])) (\<lambda>mac_address_table.
       let mac_address_table_list =
             map (\<lambda>(k, v). \<lparr>me_interface = k, me_mac_addresses = v\<rparr>) mac_address_table
       in returnP (if length mac_address_table_list > 0 then Some mac_address_table_list else None)))"

subsection \<open>\<^verbatim>\<open>get_inventory\<close>\<close>

record inventory_item =
  inv_name :: string
  inv_description :: string
  inv_pid :: string
  inv_vid :: "string option"
  inv_sn :: "string option"

text \<open>
  The state of the loop: the list, and the variables \<^verbatim>\<open>inv_name\<close> and \<^verbatim>\<open>inv_descr\<close>,
  which have no value before the first \<^verbatim>\<open>NAME:\<close> line.
\<close>

record inventory_state =
  is_inventory :: "inventory_item list"
  is_name :: "string option"
  is_descr :: "string option"

definition inventory_line :: "string \<Rightarrow> inventory_state \<Rightarrow> exn + inventory_state" where
  "inventory_line line st =
     (if startswith line ''NAME:'' then
        let splitter = split_on CHR 0x22 line in
        bindE (py_index splitter 1) (\<lambda>name.
        bindE (py_index splitter 3) (\<lambda>descr.
          Inr (st\<lparr>is_name := Some name, is_descr := Some descr\<rparr>)))
      else if startswith line ''PID:'' then
        let splitter = py_split (py_replace '','' '''' line) in
        bindE (py_index splitter 1) (\<lambda>pid.
        bindE (if length splitter > 4
               then bindE (py_index splitter 3) (\<lambda>vid.
                    bindE (py_index splitter 5) (\<lambda>sn. Inr (Some vid, Some sn)))
               else Inr (None, None)) (\<lambda>(vid, sn).
          case (is_name st, is_descr st) of
            (Some name, Some descr) \<Rightarrow>
              Inr (st\<lparr>is_inventory := is_inventory st @
                     [\<lparr>inv_name = name, inv_description = descr, inv_pid = pid,
                       inv_vid = vid, inv_sn = sn\<rparr>]\<rparr>)
          | _ \<Rightarrow> Inl UnboundLocalError))
      else Inr st)"

definition get_inventory_lines :: "string list \<Rightarrow> exn + inventory_item list" where
  "get_inventory_lines lines =
     bindE (foldE inventory_line lines \<lparr>is_inventory = [], is_name = None, is_descr = None\<rparr>)
       (\<lambda>st. Inr (is_inventory st))"

definition get_inventory :: "'d ansible_module \<Rightarrow> ('d, inventory_item list) prog" where
  "get_inventory module =
     bindP (command_lines module ''show inventory'' True) (\<lambda>lines.
       liftE (get_inventory_lines lines))"

subsection \<open>\<^verbatim>\<open>get_license\<close>\<close>

definition get_license_ios :: "'d ansible_module \<Rightarrow> ('d, string) prog" where
  "get_license_ios module = command_output module ''show license all'' True"

definition get_license_nxos :: "'d ansible_module \<Rightarrow> ('d, string) prog" where
  "get_license_nxos module = command_output module ''show license'' True"

definition get_license :: "'d ansible_module \<Rightarrow> string \<Rightarrow> ('d, string option) prog" where
  "get_license module operating_system =
     (if py_upper operating_system = Str ''IOS''
      then bindP (get_license_ios module) (\<lambda>software_license. returnP (Some software_license))
      else if py_upper operating_system = Str ''NXOS''
      then bindP (get_license_nxos module) (\<lambda>software_license. returnP (Some software_license))
      else bindP (logP [LogError ''Unknown operating system'']) (\<lambda>u. returnP None))"

subsection \<open>\<^verbatim>\<open>get_interfaces\<close>\<close>

record ipv4_entry =
  ip_subnet :: string
  ip_address :: "string option"

record interface =
  if_mtu :: int
  if_ipv4 :: "ipv4_entry list"
  if_type :: "string option"
  if_duplex :: "string option"
  if_bandwidth :: int
  if_mediatype :: "string option"
  if_macaddress :: "string option"
  if_operstatus :: string
  if_description :: "string option"
  if_lineprotocol :: string

text \<open>
  The variables that the lines of \<^verbatim>\<open>show interf\<close> fill in; each is \<^verbatim>\<open>None\<close> before
  the loop over the lines.
\<close>

record iface_fields =
  iface_mtu :: "string option"
  iface_subnet_mask :: "string option"
  iface_ip_address :: "string option"
  iface_type :: "string option"
  iface_duplex :: "string option"
  iface_bandwidth :: "string option"
  iface_mediatype :: "string option"
  iface_mac_address :: "string option"
  iface_description :: "string option"

definition no_iface_fields :: iface_fields where
  "no_iface_fields =
     \<lparr>iface_mtu = None, iface_subnet_mask = None, iface_ip_address = None, iface_type = None,
      iface_duplex = None, iface_bandwidth = None, iface_mediatype = None,
      iface_mac_address = None, iface_description = None\<rparr>"

text \<open>
  The two \<^verbatim>\<open>try\<close> blocks that read the MAC address after the first comma; their bare
  \<^verbatim>\<open>except: pass\<close> leaves the variable as it was.
\<close>

definition set_mac_address :: "exn + string \<Rightarrow> iface_fields \<Rightarrow> iface_fields" where
  "set_mac_address attempt v =
     (case attempt of Inl e \<Rightarrow> v | Inr raw \<Rightarrow> v\<lparr>iface_mac_address := Some (format_mac_address raw)\<rparr>)"

definition detail_line :: "string \<Rightarrow> iface_fields \<Rightarrow> exn + iface_fields" where
  "detail_line line2 v =
     (if contains line2 ''Hardware:'' then
        let splitter2 = split_on CHR '','' line2 in
        bindE (py_index splitter2 0) (\<lambda>head.
        bindE (py_index (split_on CHR '':'' head) 1) (\<lambda>ty.
          Inr (set_mac_address
                 (bindE (py_index splitter2 1) (\<lambda>rest.
                  bindE (py_index (py_split rest) (- 1)) (\<lambda>tok. Inr (py_replace '')'' '''' tok))))
                 (v\<lparr>iface_type := Some (py_strip ty)\<rparr>))))
      else if contains line2 ''Hardware is'' then
        let splitter2 = split_on CHR '','' line2 in
        bindE (py_index splitter2 0) (\<lambda>head.
          Inr (set_mac_address
                 (bindE (py_index splitter2 1) (\<lambda>rest. py_index (py_split rest) (- 1)))
                 (v\<lparr>iface_type := Some (py_join '''' (drop 2 (py_split head)))\<rparr>)))
      else if contains line2 ''Description:'' then
        bindE (py_index (split_on CHR '':'' line2) 1) (\<lambda>descr.
          Inr (v\<lparr>iface_description := Some (py_strip descr)\<rparr>))
      else if contains line2 ''Internet Address'' then
        bindE (py_index (py_split line2) (- 1)) (\<lambda>tok.
          case split_on CHR ''/'' tok of
            [address, subnet_mask] \<Rightarrow>
              Inr (v\<lparr>iface_ip_address := Some address, iface_subnet_mask := Some subnet_mask\<rparr>)
          | _ \<Rightarrow> Inl ValueError)
      else if contains line2 ''MTU'' then
        let splitter2 = split_on CHR '','' line2 in
        bindE (py_index splitter2 0) (\<lambda>head.
        bindE (py_index (py_split head) 1) (\<lambda>mtu.
        bindE (py_index splitter2 1) (\<lambda>rest.
        bindE (py_index (py_split rest) 1) (\<lambda>bandwidth.
          Inr (v\<lparr>iface_mtu := Some mtu, iface_bandwidth := Some bandwidth\<rparr>)))))
      else if contains line2 ''duplex'' then
        let splitter2 = split_on CHR '','' line2 in
        bindE (py_index splitter2 0) (\<lambda>head.
        bindE (py_index splitter2 (- 1)) (\<lambda>tail.
          Inr (v\<lparr>iface_duplex := Some (if \<not> contains head ''full'' then ''half'' else ''full''),
                 iface_mediatype := Some (py_strip (py_replace ''media type is'' '''' tail))\<rparr>)))
      else Inr v)"

text \<open>The dictionary of one interface; \<^verbatim>\<open>int\<close> is called on the MTU first.\<close>

definition interface_of :: "iface_fields \<Rightarrow> string \<Rightarrow> string \<Rightarrow> exn + interface" where
  "interface_of v operstatus lineprotocol =
     bindE (py_int_of (iface_mtu v)) (\<lambda>mtu.
     bindE (py_int_of (iface_bandwidth v)) (\<lambda>bandwidth.
       Inr \<lparr>if_mtu = mtu,
            if_ipv4 = [\<lparr>ip_subnet = py_str_of (iface_subnet_mask v), ip_address = iface_ip_address v\<rparr>],
            if_type = iface_type v, if_duplex = iface_duplex v, if_bandwidth = bandwidth,
            if_mediatype = iface_mediatype v, if_macaddress = iface_mac_address v,
            if_operstatus = operstatus, if_description = iface_description v,
            if_lineprotocol = lineprotocol\<rparr>))"

text \<open>
  A line of the brief table with three columns names an interface, whose details are
  then asked for. The dictionary of interfaces keeps the order of first insertion.
\<close>

definition brief_line ::
  "'d ansible_module \<Rightarrow> string \<Rightarrow> (string \<times> interface) list \<Rightarrow> ('d, (string \<times> interface) list) prog" where
  "brief_line module line interfaces =
     (let splitter = py_split line in
      if length splitter = 3 then
        bindP (liftE (py_index splitter 0)) (\<lambda>iface_name.
        bindP (liftE (py_index splitter (- 1))) (\<lambda>status.
        let iface_status = split_on CHR ''/'' status in
        bindP (liftE (bindE (py_index iface_status 0) (\<lambda>a. py_index (split_on CHR ''-'' a) (- 1))))
          (\<lambda>lineprotocol.
        bindP (liftE (bindE (py_index iface_status 1) (\<lambda>b. py_index (split_on CHR ''-'' b) (- 1))))
          (\<lambda>operstatus.
        bindP (command_lines module (''show interf '' @ iface_name) True) (\<lambda>lines2.
        bindP (liftE (bindE (py_index lines2 0) (\<lambda>first. py_index (py_split first) 0))) (\<lambda>name.
        bindP (liftE (foldE detail_line (drop 1 lines2) no_iface_fields)) (\<lambda>v.
        bindP (liftE (interface_of v operstatus lineprotocol)) (\<lambda>details.
          returnP (AList.update name details interfaces)))))))))
      else returnP interfaces)"

definition get_interfaces_nxos :: "'d ansible_module \<Rightarrow> ('d, (string \<times> interface) list) prog" where
  "get_interfaces_nxos module =
     bindP (command_lines module ''show ip interf br oper vrf all'' True) (\<lambda>lines.
       foldP (brief_line module) lines [])"

definition get_interfaces ::
  "'d ansible_module \<Rightarrow> string \<Rightarrow> ('d, (string \<times> interface) list option) prog" where
  "get_interfaces module operating_system =
     (if py_upper operating_system = Str ''NXOS''
      then bindP (get_interfaces_nxos module) (\<lambda>interfaces. returnP (Some interfaces))
      else returnP None)"

section \<open>The aggregator: \<^verbatim>\<open>run_module\<close>\<close>

text \<open>A value of the dictionary \<^verbatim>\<open>ansible_facts\<close>; \<open>FNone\<close> is \<^verbatim>\<open>None\<close>.\<close>

datatype fact =
    FNone
  | FInterfaces "(string \<times> interface) list"
  | FInventory "inventory_item list"
  | FLicense string
  | FMacTable "mac_entry list"
  | FRoutes "route list"
  | FNeighbors "route_neighbor list"
  | FVrfs "vrf list"

record result =
  changed :: bool
  ansible_facts :: "(string \<times> fact) list"

definition fact_types :: "string list" where
  "fact_types = [''all'', ''interfaces'', ''inventory'', ''license'', ''mac_address_table'',
                 ''routes'', ''route_neighbors'', ''vrfs'']"

text \<open>
  The selector after the first lines of \<^verbatim>\<open>run_module\<close>, with the warning they log. A
  value that is not among the eight selectors, \<^verbatim>\<open>None\<close> included, becomes \<^verbatim>\<open>all\<close>.
\<close>

definition fact_type_of :: "(string \<rightharpoonup> string option) \<Rightarrow> string \<times> log_entry list" where
  "fact_type_of ps =
     (case ps ''fact_type'' of
        None \<Rightarrow> (''all'', [])
      | Some v \<Rightarrow>
          (case v of
             Some s \<Rightarrow>
               if s \<in> set fact_types then (s, [])
               else (''all'', [LogWarning (''Error, invalid fact type requested: '' @ s)])
           | None \<Rightarrow> (''all'', [LogWarning (''Error, invalid fact type requested: '' @ py_str_of None)])))"

text \<open>The device type, from the first line of \<^verbatim>\<open>show version\<close>; IOS unless NX-OS is named.\<close>

definition operating_system_of :: "string list \<Rightarrow> exn + string" where
  "operating_system_of lines =
     bindE (py_index lines 0) (\<lambda>banner.
       Inr (if contains banner ''IOS'' then ''IOS''
            else if contains banner ''NX-OS'' \<or> contains banner ''Nexus'' then ''NXOS''
            else ''IOS''))"

definition initial_facts :: "(string \<times> fact) list" where
  "initial_facts =
     [(''ansible_net_inventory'', FNone), (''ansible_net_license'', FNone),
      (''ansible_net_mac_address_table'', FNone), (''ansible_net_routes'', FNone),
      (''ansible_net_route_neighbors'', FNone), (''ansible_net_vrfs'', FNone)]"

text \<open>The seven \<^verbatim>\<open>if\<close> blocks of \<^verbatim>\<open>run_module\<close>, each from the dictionary to the dictionary.\<close>

definition collect_interfaces ::
  "'d ansible_module \<Rightarrow> string \<Rightarrow> string \<Rightarrow> (string \<times> fact) list \<Rightarrow> ('d, (string \<times> fact) list) prog" where
  "collect_interfaces module fact_type operating_system facts =
     (if fact_type = ''interfaces'' \<or> (fact_type = ''all'' \<and> operating_system = ''NXOS'') then
        bindP (get_interfaces module operating_system) (\<lambda>r.
          returnP (AList.update ''ansible_net_interfaces''
                     (case r of None \<Rightarrow> FNone | Some interfaces \<Rightarrow> FInterfaces interfaces) facts))
      else returnP facts)"

definition collect_inventory ::
  "'d ansible_module \<Rightarrow> string \<Rightarrow> (string \<times> fact) list \<Rightarrow> ('d, (string \<times> fact) list) prog" where
  "collect_inventory module fact_type facts =
     (if fact_type = ''inventory'' \<or> fact_type = ''all'' then
        bindP (get_inventory module) (\<lambda>inventory.
          returnP (AList.update ''ansible_net_inventory'' (FInventory inventory) facts))
      else returnP facts)"

definition collect_license ::
  "'d ansible_module \<Rightarrow> string \<Rightarrow> string \<Rightarrow> (string \<times> fact) list \<Rightarrow> ('d, (string \<times> fact) list) prog" where
  "collect_license module fact_type operating_system facts =
     (if fact_type = ''license'' \<or> fact_type = ''all'' then
        bindP (get_license module operating_system) (\<lambda>r.
          returnP (AList.update ''ansible_net_license''
                     (case r of None \<Rightarrow> FNone | Some software_license \<Rightarrow> FLicense software_license) facts))
      else returnP facts)"

definition collect_mac_address_table ::
  "'d ansible_module \<Rightarrow> string \<Rightarrow> (string \<times> fact) list \<Rightarrow> ('d, (string \<times> fact) list) prog" where
  "collect_mac_address_table module fact_type facts =
     (if fact_type = ''mac_address_table'' \<or> fact_type = ''all'' then
        bindP (catch_Exception (get_mac_address_table module)
                 (\<lambda>e. bindP (logP [LogWarningExn e]) (\<lambda>u. returnP None))) (\<lambda>mac_address_table.
          returnP (AList.update ''ansible_net_mac_address_table''
                     (case mac_address_table of None \<Rightarrow> FNone | Some t \<Rightarrow> FMacTable t) facts))
      else returnP facts)"

definition collect_routes ::
  "'d ansible_module \<Rightarrow> string \<Rightarrow> string \<Rightarrow> (string \<times> fact) list \<Rightarrow> ('d, (string \<times> fact) list) prog" where
  "collect_routes module fact_type operating_system facts =
     (if fact_type = ''routes'' \<or> fact_type = ''all'' then
        bindP (routes_of_all_kinds module operating_system None) (\<lambda>routes.
          returnP (AList.update ''ansible_net_routes''
                     (if length routes = 0 then FNone else FRoutes routes) facts))
      else returnP facts)"

definition collect_route_neighbors ::
  "'d ansible_module \<Rightarrow> string \<Rightarrow> (string \<times> fact) list \<Rightarrow> ('d, (string \<times> fact) list) prog" where
  "collect_route_neighbors module fact_type facts =
     (if fact_type = ''route_neighbors'' \<or> fact_type = ''all'' then
        bindP (catch_Exception
                 (bindP (get_route_neighbors module) (\<lambda>route_neighbors. returnP (Some route_neighbors)))
                 (\<lambda>e. bindP (logP [LogWarningExn e]) (\<lambda>u. returnP None))) (\<lambda>route_neighbors.
          returnP (AList.update ''ansible_net_route_neighbors''
                     (case route_neighbors of None \<Rightarrow> FNone | Some ns \<Rightarrow> FNeighbors ns) facts))
      else returnP facts)"

definition collect_vrfs ::
  "'d ansible_module \<Rightarrow> string \<Rightarrow> string \<Rightarrow> (string \<times> fact) list \<Rightarrow> ('d, (string \<times> fact) list) prog" where
  "collect_vrfs module fact_type operating_system facts =
     (if fact_type = ''vrfs'' \<or> fact_type = ''all'' then
        bindP (get_vrfs module operating_system) (\<lambda>vrfs.
          returnP (AList.update ''ansible_net_vrfs'' (FVrfs vrfs) facts))
      else returnP facts)"

text \<open>
  \<^verbatim>\<open>run_module\<close> ends in \<^verbatim>\<open>module.exit_json(**result)\<close>; what it returns here is that
  result. In check mode it exits at once, with no facts.
\<close>

definition run_module :: "'d ansible_module \<Rightarrow> ('d, result) prog" where
  "run_module module =
     (case fact_type_of (params module) of (fact_type, warnings) \<Rightarrow>
        bindP (logP warnings) (\<lambda>u.
          if check_mode module then returnP \<lparr>changed = False, ansible_facts = []\<rparr>
          else
            bindP (command_lines module ''show version'' True) (\<lambda>lines.
            bindP (liftE (operating_system_of lines)) (\<lambda>operating_system.
            bindP (collect_interfaces module fact_type operating_system initial_facts) (\<lambda>facts1.
            bindP (collect_inventory module fact_type facts1) (\<lambda>facts2.
            bindP (collect_license module fact_type operating_system facts2) (\<lambda>facts3.
            bindP (collect_mac_address_table module fact_type facts3) (\<lambda>facts4.
            bindP (collect_routes module fact_type operating_system facts4) (\<lambda>facts5.
            bindP (collect_route_neighbors module fact_type facts5) (\<lambda>facts6.
            bindP (collect_vrfs module fact_type operating_system facts6) (\<lambda>facts7.
              returnP \<lparr>changed = False, ansible_facts = facts7\<rparr>)))))))))))"

text \<open>
  A device for examples: it answers each command from a table, raises
  \<^verbatim>\<open>ConnectionError\<close> for a command that is not in the table, and has no state.
\<close>

definition table_device :: "(string \<times> string) list \<Rightarrow> string list \<Rightarrow> bool \<Rightarrow> unit \<Rightarrow> (exn + string list) \<times> unit" where
  "table_device table commands check_rc d =
     (mapE (\<lambda>c. case map_of table c of None \<Rightarrow> Inl (ConnectionError c) | Some out \<Rightarrow> Inr out) commands, d)"

section \<open>The words of the specification\<close>

text \<open>
  The definitions of this section follow the specification, not the code: they state
  what the claims about the code say.
\<close>

subsection \<open>MAC addresses\<close>

text \<open>
  The delimiters that \<^verbatim>\<open>formatMac\<close> strips, a hexadecimal digit and its lower-case
  form, and the three delimiter styles of twelve digits with the canonical string.
\<close>

definition is_delim :: "char \<Rightarrow> bool" where
  "is_delim c = (c = CHR ''.'' \<or> c = CHR '':'' \<or> c = CHR ''-'' \<or> is_space c)"

definition strip_delims :: "string \<Rightarrow> string" where
  "strip_delims s = filter (\<lambda>c. \<not> is_delim c) s"

definition is_hex_digit :: "char \<Rightarrow> bool" where
  "is_hex_digit c = (c \<in> set ''0123456789abcdefABCDEF'')"

definition hex_lower :: "char \<Rightarrow> char" where
  "hex_lower c =
     (if c = CHR ''A'' then CHR ''a'' else if c = CHR ''B'' then CHR ''b''
      else if c = CHR ''C'' then CHR ''c'' else if c = CHR ''D'' then CHR ''d''
      else if c = CHR ''E'' then CHR ''e'' else if c = CHR ''F'' then CHR ''f'' else c)"

definition pairs :: "string \<Rightarrow> string list" where
  "pairs h = [slice h 0 2, slice h 2 4, slice h 4 6, slice h 6 8, slice h 8 10, slice h 10 12]"

definition dot_grouped :: "string \<Rightarrow> string" where
  "dot_grouped h = py_join ''.'' [slice h 0 4, slice h 4 8, slice h 8 12]"

definition colon_grouped :: "string \<Rightarrow> string" where
  "colon_grouped h = py_join '':'' (pairs h)"

definition dash_grouped :: "string \<Rightarrow> string" where
  "dash_grouped h = py_join ''-'' (pairs h)"

definition canonical_mac :: "string \<Rightarrow> string" where
  "canonical_mac h = py_join '':'' (pairs (map hex_lower h))"

subsection \<open>Next hops\<close>




subsection \<open>Blocks of dialect B\<close>

text \<open>
  The prefix a \<^verbatim>\<open>ubest\<close> line names, the next hop a \<^verbatim>\<open>via\<close> line gives, and the
  next hops of the \<^verbatim>\<open>via\<close> lines among the lines of a block.
\<close>

definition ubest_prefix :: "string \<Rightarrow> string" where
  "ubest_prefix line = py_replace '','' '''' (hd (py_split line))"

definition via_hop :: "string \<Rightarrow> string \<Rightarrow> next_hop" where
  "via_hop route_type line =
     (let splitter = py_split (py_replace '','' '''' line)
      in nxos_hop route_type splitter (hd (split_on CHR ''%'' (splitter ! 1))))"

definition block_hops :: "string \<Rightarrow> string list \<Rightarrow> next_hop list" where
  "block_hops route_type ls = map (via_hop route_type) (filter (\<lambda>l. contains l ''via'') ls)"


subsection \<open>The fact bundle\<close>

text \<open>
  The six keys that \<^verbatim>\<open>run_module\<close> initializes, the key of a selector, and a program
  that raises a given exception from some state of the device.
\<close>

definition initial_keys :: "string list" where
  "initial_keys =
     [''ansible_net_inventory'', ''ansible_net_license'', ''ansible_net_mac_address_table'',
      ''ansible_net_routes'', ''ansible_net_route_neighbors'', ''ansible_net_vrfs'']"

definition key_of :: "string \<Rightarrow> string" where
  "key_of fact_type = ''ansible_net_'' @ fact_type"

definition raises :: "('d, 'a) prog \<Rightarrow> exn \<Rightarrow> bool" where
  "raises p e = (\<exists>d d' l. p d = (Inl e, d', l))"

subsection \<open>Inventory lines\<close>

text \<open>The double quote, and a \<^verbatim>\<open>NAME:\<close> line of \<^verbatim>\<open>show inventory\<close> with its two quoted fields.\<close>

definition dq :: string where
  "dq = [CHR 0x22]"

definition name_line :: "string \<Rightarrow> string \<Rightarrow> string" where
  "name_line name descr = ''NAME: '' @ dq @ name @ dq @ '', DESCR: '' @ dq @ descr @ dq"

section \<open>Properties of the string methods\<close>

lemma py_replace_single: "py_replace [c] [] s = filter (\<lambda>x. x \<noteq> c) s"
  by (induction s) auto

lemma py_join_empty: "py_join [] xs = concat xs"
  by (induction "[] :: string" xs rule: py_join.induct) auto

lemma filter_takeWhile_dropWhile:
  "takeWhile P cs @ filter P (dropWhile P cs) = filter P cs"
  by (induction cs) auto

lemma concat_py_split: "concat (py_split s) = filter (\<lambda>x. \<not> is_space x) s"
  by (induction s rule: py_split.induct) (auto simp: filter_takeWhile_dropWhile)

lemma lower_char_idem: "lower_char (lower_char c) = lower_char c"
  by (cases c) (auto simp: is_upper_def)

lemma is_space_lower: "is_space (lower_char c) = is_space c"
  by (cases c) (auto simp: is_upper_def is_space_def)

lemma is_alnum_lower: "is_alnum (lower_char c) = is_alnum c"
  by (cases c) (auto simp: is_upper_def is_alnum_def)

lemma alnum_not_delim: "is_alnum c \<Longrightarrow> \<not> is_delim c"
  by (auto simp: is_alnum_def is_delim_def is_space_def Let_def)

lemma bindE_Inr: "bindE (Inr x) f = f x"
  by (simp add: bindE_def)

lemma bindE_Inl: "bindE (Inl e) f = Inl e"
  by (simp add: bindE_def)

lemmas bindE_simps = bindE_Inr bindE_Inl


lemma bindE_eq_Inl: "bindE m f = Inl e \<longleftrightarrow> m = Inl e \<or> (\<exists>x. m = Inr x \<and> f x = Inl e)"
  by (cases m) (auto simp: bindE_simps)

lemma split_on_nonempty: "split_on sep s \<noteq> []"
  by (induction s) (auto split: list.splits)

lemma py_index_0: "xs \<noteq> [] \<Longrightarrow> py_index xs 0 = Inr (hd xs)"
  by (cases xs) (auto simp: py_index_def)

lemma py_index_nat: "n < length xs \<Longrightarrow> py_index xs (int n) = Inr (xs ! n)"
  by (auto simp: py_index_def)

lemma py_index_last: "xs \<noteq> [] \<Longrightarrow> py_index xs (- 1) = Inr (last xs)"
  by (cases xs rule: rev_cases) (auto simp: py_index_def nth_append)

lemma py_index_raises: "py_index xs i = Inl e \<Longrightarrow> e = IndexError"
  by (auto simp: py_index_def split: if_splits)

lemma py_index_beyond: "length xs \<le> n \<Longrightarrow> py_index xs (int n) = Inl IndexError"
  by (auto simp: py_index_def)


lemma foldE_append: "foldE body (xs @ ys) s = bindE (foldE body xs s) (foldE body ys)"
  by (induction xs arbitrary: s) (auto simp: bindE_def split: sum.splits)

lemma contains_set: "contains s sub \<Longrightarrow> set sub \<subseteq> set s"
proof (induction s)
  case Nil
  then show ?case by simp
next
  case (Cons c cs)
  from Cons.prems have "prefix sub (c # cs) \<or> contains cs sub" by simp
  then show ?case
  proof
    assume "prefix sub (c # cs)"
    then show ?thesis by (rule set_mono_prefix)
  next
    assume "contains cs sub"
    then have "set sub \<subseteq> set cs" by (rule Cons.IH)
    then show ?thesis by auto
  qed
qed

lemma py_split_Nil: "py_split s = [] \<Longrightarrow> \<forall>c \<in> set s. is_space c"
proof -
  assume "py_split s = []"
  then have "filter (\<lambda>x. \<not> is_space x) s = []"
    using concat_py_split [of s] by simp
  then show ?thesis by (simp add: filter_empty_conv)
qed

section \<open>The MAC address formatter\<close>

text \<open>
  What the formatter computes before its two assertions is the argument without its
  delimiters, in lower case.
\<close>

lemma mac_stripped:
  "py_join '''' (py_split (py_lower (py_replace ''-'' '''' (py_replace '':'' ''''
     (py_replace ''.'' '''' s))))) = map lower_char (strip_delims s)"
proof -
  have "py_join '''' (py_split (py_lower (py_replace ''-'' '''' (py_replace '':'' ''''
          (py_replace ''.'' '''' s)))))
      = filter (\<lambda>x. \<not> is_space x) (map lower_char (filter (\<lambda>x. x \<noteq> CHR ''-'')
          (filter (\<lambda>x. x \<noteq> CHR '':'') (filter (\<lambda>x. x \<noteq> CHR ''.'') s))))"
    by (simp add: py_replace_single py_join_empty concat_py_split py_lower_def)
  also have "\<dots> = map lower_char (filter (\<lambda>x. \<not> is_space x) (filter (\<lambda>x. x \<noteq> CHR ''-'')
          (filter (\<lambda>x. x \<noteq> CHR '':'') (filter (\<lambda>x. x \<noteq> CHR ''.'') s))))"
    by (simp add: filter_map comp_def is_space_lower)
  also have "\<dots> = map lower_char (strip_delims s)"
    by (simp add: strip_delims_def is_delim_def conj_commute conj_left_commute)
  finally show ?thesis .
qed

lemma format_mac_address_unfold:
  "format_mac_address s =
     (let m = map lower_char (strip_delims s) in
      if length m = 12 \<and> py_isalnum m
      then py_join '':'' (map (\<lambda>n. slice m n (n + 2)) [0, 2, 4, 6, 8, 10]) else s)"
  by (simp add: format_mac_address_def format_mac_address_try_def mac_stripped Let_def)

lemma format_mac_address_raises:
  "format_mac_address_try s = Inl e \<Longrightarrow> format_mac_address s = s"
  by (simp add: format_mac_address_def)

lemma length_twelve:
  assumes "length m = 12"
  obtains a b c d e f g h i j k l where "m = [a, b, c, d, e, f, g, h, i, j, k, l]"
proof -
  from assms show thesis
    by (auto simp: length_Suc_conv numeral_eq_Suc intro: that)
qed

lemma canonical_shape:
  "py_join '':'' (map (\<lambda>n. slice [a, b, c, d, e, f, g, h, i, j, k, l] n (n + 2)) [0, 2, 4, 6, 8, 10])
     = [a, b, CHR '':'', c, d, CHR '':'', e, f, CHR '':'', g, h, CHR '':'', i, j, CHR '':'', k, l]"
  by (simp add: slice_def)

lemma strip_delims_canonical:
  assumes "list_all is_alnum [a, b, c, d, e, f, g, h, i, j, k, l]"
  shows "strip_delims [a, b, CHR '':'', c, d, CHR '':'', e, f, CHR '':'', g, h, CHR '':'',
           i, j, CHR '':'', k, l] = [a, b, c, d, e, f, g, h, i, j, k, l]"
  using assms by (simp add: strip_delims_def alnum_not_delim) (simp add: is_delim_def)

lemma format_mac_address_twice:
  "format_mac_address (format_mac_address x) = format_mac_address x"
proof (cases "length (map lower_char (strip_delims x)) = 12
              \<and> py_isalnum (map lower_char (strip_delims x))")
  case False
  then have "format_mac_address x = x"
    by (auto simp: format_mac_address_unfold Let_def)
  then show ?thesis by simp
next
  case True
  then obtain a b c d e f g h i j k l
    where m: "map lower_char (strip_delims x) = [a, b, c, d, e, f, g, h, i, j, k, l]"
    using length_twelve by blast
  let ?y = "[a, b, CHR '':'', c, d, CHR '':'', e, f, CHR '':'', g, h, CHR '':'',
             i, j, CHR '':'', k, l]"
  have al: "list_all is_alnum [a, b, c, d, e, f, g, h, i, j, k, l]"
    using True m by (simp add: py_isalnum_def)
  have fx: "format_mac_address x = ?y"
    by (simp only: format_mac_address_unfold Let_def m canonical_shape) (use True m in simp)
  have "map lower_char (map lower_char (strip_delims x)) = map lower_char (strip_delims x)"
    by (simp add: lower_char_idem)
  then have low: "map lower_char [a, b, c, d, e, f, g, h, i, j, k, l]
                  = [a, b, c, d, e, f, g, h, i, j, k, l]"
    using m by simp
  have "map lower_char (strip_delims ?y) = [a, b, c, d, e, f, g, h, i, j, k, l]"
    unfolding strip_delims_canonical[OF al] using low .
  then have "format_mac_address ?y = ?y"
    by (simp only: format_mac_address_unfold Let_def canonical_shape) (use True m in simp)
  then show ?thesis using fx by simp
qed

lemma hex_digit_facts:
  assumes "is_hex_digit c"
  shows "lower_char c = hex_lower c" and "is_alnum c" and "\<not> is_delim c"
proof -
  from assms have c: "c = CHR ''0'' \<or> c = CHR ''1'' \<or> c = CHR ''2'' \<or> c = CHR ''3'' \<or> c = CHR ''4''
      \<or> c = CHR ''5'' \<or> c = CHR ''6'' \<or> c = CHR ''7'' \<or> c = CHR ''8'' \<or> c = CHR ''9''
      \<or> c = CHR ''a'' \<or> c = CHR ''b'' \<or> c = CHR ''c'' \<or> c = CHR ''d'' \<or> c = CHR ''e''
      \<or> c = CHR ''f'' \<or> c = CHR ''A'' \<or> c = CHR ''B'' \<or> c = CHR ''C'' \<or> c = CHR ''D''
      \<or> c = CHR ''E'' \<or> c = CHR ''F''"
    by (simp add: is_hex_digit_def)
  from c show "lower_char c = hex_lower c"
    by (elim disjE) (simp_all add: hex_lower_def is_upper_def)
  from c show "is_alnum c"
    by (elim disjE) (simp_all add: is_alnum_def)
  then show "\<not> is_delim c"
    by (rule alnum_not_delim)
qed

lemma hex_digits_stripped:
  assumes "list_all is_hex_digit h"
  shows "strip_delims h = h" and "map lower_char h = map hex_lower h" and "list_all is_alnum h"
  using assms by (auto simp: strip_delims_def list_all_iff hex_digit_facts filter_id_conv)

lemma format_hex_digits:
  assumes "length h = 12" and "list_all is_hex_digit h" and "strip_delims x = h"
  shows "format_mac_address x = canonical_mac h"
proof -
  have m: "map lower_char (strip_delims x) = map hex_lower h"
    using assms(2,3) hex_digits_stripped(2) by simp
  have "list_all is_alnum (map lower_char h)"
    using hex_digits_stripped(3) [OF assms(2)] by (simp add: list_all_iff is_alnum_lower)
  then have "list_all is_alnum (map hex_lower h)"
    using hex_digits_stripped(2) [OF assms(2)] by simp
  then have "py_isalnum (map hex_lower h)"
    using assms(1) by (auto simp: py_isalnum_def)
  then show ?thesis
    using assms(1)
    by (simp add: format_mac_address_unfold m canonical_mac_def pairs_def Let_def
          del: add_2_eq_Suc add_2_eq_Suc')
qed

lemma strip_delims_grouped:
  assumes "length h = 12" and "list_all is_hex_digit h"
  shows "strip_delims (dot_grouped h) = h" and "strip_delims (colon_grouped h) = h"
    and "strip_delims (dash_grouped h) = h"
proof -
  obtain a b c d e f g i j k l m where h: "h = [a, b, c, d, e, f, g, i, j, k, l, m]"
    using assms(1) length_twelve by blast
  have nd: "\<forall>x \<in> set h. \<not> is_delim x"
    using assms(2) by (auto simp: list_all_iff hex_digit_facts)
  show "strip_delims (dot_grouped h) = h"
    using nd unfolding h by (simp add: dot_grouped_def slice_def strip_delims_def is_delim_def)
  show "strip_delims (colon_grouped h) = h"
    using nd unfolding h by (simp add: colon_grouped_def pairs_def slice_def strip_delims_def is_delim_def)
  show "strip_delims (dash_grouped h) = h"
    using nd unfolding h by (simp add: dash_grouped_def pairs_def slice_def strip_delims_def is_delim_def)
qed

text \<open>
  C7. Formatting a MAC address twice gives what formatting it once gives, for every
  string. Any twelve hexadecimal digits, written dot-grouped, colon-grouped or
  dash-grouped, format to the same string: the digits in lower case, in pairs that
  colons separate. So \<^verbatim>\<open>a2bf.0000.0002\<close>, \<^verbatim>\<open>a2:bf:00:00:00:02\<close> and
  \<^verbatim>\<open>a2-bf-00-00-00-02\<close> all format to \<^verbatim>\<open>a2:bf:00:00:00:02\<close>.
\<close>

theorem format_mac_address_idempotent:
  "format_mac_address (format_mac_address x) = format_mac_address x
   \<and> (length h = 12 \<and> list_all is_hex_digit h \<longrightarrow>
        format_mac_address (dot_grouped h) = canonical_mac h
        \<and> format_mac_address (colon_grouped h) = canonical_mac h
        \<and> format_mac_address (dash_grouped h) = canonical_mac h)
   \<and> format_mac_address ''a2bf.0000.0002'' = ''a2:bf:00:00:00:02''
   \<and> format_mac_address ''a2:bf:00:00:00:02'' = ''a2:bf:00:00:00:02''
   \<and> format_mac_address ''a2-bf-00-00-00-02'' = ''a2:bf:00:00:00:02''"
proof -
  have "format_mac_address ''a2bf.0000.0002'' = ''a2:bf:00:00:00:02''" by code_simp
  moreover have "format_mac_address ''a2:bf:00:00:00:02'' = ''a2:bf:00:00:00:02''" by code_simp
  moreover have "format_mac_address ''a2-bf-00-00-00-02'' = ''a2:bf:00:00:00:02''" by code_simp
  moreover have "length h = 12 \<and> list_all is_hex_digit h \<longrightarrow>
        format_mac_address (dot_grouped h) = canonical_mac h
        \<and> format_mac_address (colon_grouped h) = canonical_mac h
        \<and> format_mac_address (dash_grouped h) = canonical_mac h"
    using format_hex_digits strip_delims_grouped by blast
  ultimately show ?thesis using format_mac_address_twice by simp
qed

theorem format_mac_address_idempotent_witness:
  "length ''A2BF0000000c'' = 12 \<and> list_all is_hex_digit ''A2BF0000000c''
   \<and> format_mac_address ''A2BF.0000.000c'' = ''a2:bf:00:00:00:0c''
   \<and> format_mac_address ''A2:BF:00:00:00:0c'' = ''a2:bf:00:00:00:0c''
   \<and> format_mac_address ''A2-BF-00-00-00-0c'' = ''a2:bf:00:00:00:0c''"
proof -
  have h: "length ''A2BF0000000c'' = 12 \<and> list_all is_hex_digit ''A2BF0000000c''"
    by code_simp
  have d: "dot_grouped ''A2BF0000000c'' = ''A2BF.0000.000c''" by code_simp
  have c: "colon_grouped ''A2BF0000000c'' = ''A2:BF:00:00:00:0c''" by code_simp
  have a: "dash_grouped ''A2BF0000000c'' = ''A2-BF-00-00-00-0c''" by code_simp
  have m: "canonical_mac ''A2BF0000000c'' = ''a2:bf:00:00:00:0c''" by code_simp
  show ?thesis
    using h format_mac_address_idempotent [of undefined "''A2BF0000000c''"]
    unfolding d c a m by blast
qed

text \<open>
  C8, as the specification states it, fails: twelve letters \<^verbatim>\<open>z\<close> are not twelve
  hexadecimal digits, and the formatter does not return them unchanged.
\<close>

theorem format_mac_address_non_hex_counterexample:
  "\<not> (\<not> (length (strip_delims ''zzzzzzzzzzzz'') = 12
           \<and> list_all is_hex_digit (strip_delims ''zzzzzzzzzzzz''))
        \<longrightarrow> format_mac_address ''zzzzzzzzzzzz'' = ''zzzzzzzzzzzz'')"
proof -
  have "\<not> list_all is_hex_digit (strip_delims ''zzzzzzzzzzzz'')" by code_simp
  moreover have "format_mac_address ''zzzzzzzzzzzz'' = ''zz:zz:zz:zz:zz:zz''" by code_simp
  ultimately show ?thesis by simp
qed

text \<open>
  C8, amended. The formatter returns its argument unchanged whenever the argument,
  without the delimiters \<^verbatim>\<open>.\<close>, \<^verbatim>\<open>:\<close>, \<^verbatim>\<open>-\<close> and whitespace, is not exactly twelve
  alphanumeric characters; and every exception raised in its body is answered by
  returning the argument, so none reaches the caller.
\<close>

theorem format_mac_address_unchanged:
  "\<not> (length (strip_delims x) = 12 \<and> list_all is_alnum (strip_delims x))
     \<Longrightarrow> format_mac_address x = x
         \<and> (\<forall>y e. format_mac_address_try y = Inl e \<longrightarrow> format_mac_address y = y)"
proof -
  assume "\<not> (length (strip_delims x) = 12 \<and> list_all is_alnum (strip_delims x))"
  then have "format_mac_address x = x"
    by (auto simp: format_mac_address_unfold Let_def py_isalnum_def list_all_iff is_alnum_lower)
  moreover have "\<forall>y e. format_mac_address_try y = Inl e \<longrightarrow> format_mac_address y = y"
    using format_mac_address_raises by blast
  ultimately show ?thesis by simp
qed

theorem format_mac_address_unchanged_witness:
  "\<not> (length (strip_delims ''not-a-mac'') = 12 \<and> list_all is_alnum (strip_delims ''not-a-mac''))
   \<and> format_mac_address ''not-a-mac'' = ''not-a-mac''"
proof -
  have h: "\<not> (length (strip_delims ''not-a-mac'') = 12
              \<and> list_all is_alnum (strip_delims ''not-a-mac''))"
    by code_simp
  show ?thesis using h format_mac_address_unchanged [OF h] by simp
qed

section \<open>The route filter\<close>

lemma routable_unfold:
  "is_routable_for_collection p c =
     (case IPv4Address (hd (split_on CHR ''/'' p)) of
        Inl e \<Rightarrow> Inl e
      | Inr a \<Rightarrow> Inr (is_private a \<or> p = ''0.0.0.0/0'' \<or> c))"
  by (simp add: is_routable_for_collection_def py_index_0 split_on_nonempty bindE_simps
        split: sum.splits)

text \<open>
  C9. The condition that both route parsers apply, for a prefix whose part before the
  slash is an IPv4 address: it holds for every private prefix, such as
  \<^verbatim>\<open>192.168.1.0/24\<close>; for the default route \<^verbatim>\<open>0.0.0.0/0\<close>; for every prefix when the
  route kind is connected; and it fails for every prefix that is public and not the
  default route when the kind is not connected, such as \<^verbatim>\<open>8.8.8.0/24\<close>.
\<close>

theorem is_routable_for_collection_cases:
  "(IPv4Address (hd (split_on CHR ''/'' p)) = Inr a \<and> is_private a
      \<longrightarrow> is_routable_for_collection p c = Inr True)
   \<and> is_routable_for_collection ''0.0.0.0/0'' c = Inr True
   \<and> (IPv4Address (hd (split_on CHR ''/'' p)) = Inr a
      \<longrightarrow> is_routable_for_collection p True = Inr True)
   \<and> (IPv4Address (hd (split_on CHR ''/'' p)) = Inr a \<and> \<not> is_private a \<and> p \<noteq> ''0.0.0.0/0''
      \<longrightarrow> is_routable_for_collection p False = Inr False)
   \<and> is_routable_for_collection ''192.168.1.0/24'' False = Inr True
   \<and> is_routable_for_collection ''8.8.8.0/24'' False = Inr False"
proof -
  have d: "IPv4Address (hd (split_on CHR ''/'' ''0.0.0.0/0'')) = Inr 0"
    by code_simp
  have "is_routable_for_collection ''192.168.1.0/24'' False = Inr True"
    by code_simp
  moreover have "is_routable_for_collection ''8.8.8.0/24'' False = Inr False"
    by code_simp
  moreover have "is_routable_for_collection ''0.0.0.0/0'' c = Inr True"
    by (simp only: routable_unfold d) simp
  ultimately show ?thesis
    by (simp add: routable_unfold)
qed

theorem is_routable_for_collection_cases_witness:
  "IPv4Address (hd (split_on CHR ''/'' ''192.168.1.0/24'')) = Inr (ipv4 192 168 1 0)
   \<and> is_private (ipv4 192 168 1 0)
   \<and> is_routable_for_collection ''192.168.1.0/24'' False = Inr True
   \<and> is_routable_for_collection ''192.168.1.0/24'' True = Inr True
   \<and> IPv4Address (hd (split_on CHR ''/'' ''8.8.8.0/24'')) = Inr (ipv4 8 8 8 0)
   \<and> \<not> is_private (ipv4 8 8 8 0)
   \<and> ''8.8.8.0/24'' \<noteq> ''0.0.0.0/0''
   \<and> is_routable_for_collection ''8.8.8.0/24'' False = Inr False
   \<and> is_routable_for_collection ''8.8.8.0/24'' True = Inr True"
proof -
  have a: "IPv4Address (hd (split_on CHR ''/'' ''192.168.1.0/24'')) = Inr (ipv4 192 168 1 0)"
    by code_simp
  have b: "is_private (ipv4 192 168 1 0)"
    by code_simp
  have c: "IPv4Address (hd (split_on CHR ''/'' ''8.8.8.0/24'')) = Inr (ipv4 8 8 8 0)"
    by code_simp
  have d: "\<not> is_private (ipv4 8 8 8 0)"
    by code_simp
  have e: "''8.8.8.0/24'' \<noteq> ''0.0.0.0/0''"
    by simp
  show ?thesis
    using a b c d e
      is_routable_for_collection_cases [of "''192.168.1.0/24''" "ipv4 192 168 1 0" False]
      is_routable_for_collection_cases [of "''192.168.1.0/24''" "ipv4 192 168 1 0" True]
      is_routable_for_collection_cases [of "''8.8.8.0/24''" "ipv4 8 8 8 0" False]
    by blast
qed

section \<open>Dialect A: an OSPF route on two lines\<close>

text \<open>
  C4, as the specification states it, fails twice. The first line of its example has
  three tokens, so the parser reads a next hop from its fifth token and raises
  \<^verbatim>\<open>IndexError\<close>. And after a first line of two tokens, the continuation line of the
  example gives its third token, the interface name, as the address of the next hop.
\<close>

theorem ospf_two_line_example_counterexample:
  "get_routes_ios_lines ''OSPF''
     [''O    172.16.5.0/24 [110/2]'', ''via 10.0.0.1, TenGigabitEthernet0/1''] = Inl IndexError
   \<and> get_routes_ios_lines ''OSPF''
     [''O    172.16.5.0/24'', ''via 10.0.0.1, TenGigabitEthernet0/1''] =
     Inr [\<lparr>rt_route = ''172.16.5.0/24'', rt_kind = Str ''OSPF'',
           rt_next_hop = Some [\<lparr>nh_address = Some ''TenGigabitEthernet0/1'',
                                nh_interface = Some ''TenGigabitEthernet0/1''\<rparr>]\<rparr>]"
proof -
  have "get_routes_ios_lines ''OSPF''
     [''O    172.16.5.0/24 [110/2]'', ''via 10.0.0.1, TenGigabitEthernet0/1''] = Inl IndexError"
    by code_simp
  moreover have "get_routes_ios_lines ''OSPF''
     [''O    172.16.5.0/24'', ''via 10.0.0.1, TenGigabitEthernet0/1''] =
     Inr [\<lparr>rt_route = ''172.16.5.0/24'', rt_kind = Str ''OSPF'',
           rt_next_hop = Some [\<lparr>nh_address = Some ''TenGigabitEthernet0/1'',
                                nh_interface = Some ''TenGigabitEthernet0/1''\<rparr>]\<rparr>]"
    by code_simp
  ultimately show ?thesis by simp
qed

text \<open>
  C4, amended. For the route type OSPF, take a first line that starts with \<^verbatim>\<open>O\<close> and a
  space or a star and has exactly two tokens, the second a prefix that passes the
  filter, and a continuation line that does not start so and has at least three tokens.
  The parser yields exactly one route: its prefix is the second token of the first
  line, its kind is OSPF, and its one next hop has the third token of the continuation
  line, without commas, as address and the last token of the continuation line as
  interface. So the lines \<^verbatim>\<open>O    172.16.5.0/24\<close> and
  \<^verbatim>\<open>[110/2] via 10.0.0.1, TenGigabitEthernet0/1\<close> yield one route with the next hop
  10.0.0.1 on TenGigabitEthernet0/1.
\<close>

theorem ospf_continuation_line:
  assumes "py_lower route_type = ''ospf''"
    and "startswith l1 ''O '' \<or> startswith l1 ''O*''"
    and "py_split l1 = [code, pfx]"
    and "\<not> (startswith l2 ''O '' \<or> startswith l2 ''O*'')"
    and "3 \<le> length (py_split l2)"
    and "is_routable_for_collection pfx False = Inr True"
  shows "get_routes_ios_lines route_type [l1, l2] =
     Inr [\<lparr>rt_route = pfx, rt_kind = Str ''OSPF'',
           rt_next_hop = Some [\<lparr>nh_address = Some (py_replace '','' '''' (py_split l2 ! 2)),
                                nh_interface = Some (last (py_split l2))\<rparr>]\<rparr>]"
proof -
  have i2: "py_index (py_split l2) 2 = Inr (py_split l2 ! 2)"
    using assms(5) py_index_nat [of 2 "py_split l2"] by simp
  have il: "py_index (py_split l2) (- 1) = Inr (last (py_split l2))"
    using assms(5) by (intro py_index_last) auto
  have s1: "ospf_line l1 \<lparr>os_routes = [], os_first_line = True, os_route = None\<rparr>
            = Inr \<lparr>os_routes = [], os_first_line = False, os_route = Some pfx\<rparr>"
    using assms(2,3) by (simp add: ospf_line_def py_index_def bindE_simps)
  have s2: "ospf_line l2 \<lparr>os_routes = [], os_first_line = False, os_route = Some pfx\<rparr>
            = Inr \<lparr>os_routes = [ospf_route pfx (py_split l2 ! 2) (last (py_split l2))],
                   os_first_line = False, os_route = Some pfx\<rparr>"
    using assms(4,6) by (simp add: ospf_line_def i2 il Let_def bindE_simps)
  show ?thesis
    using assms(1) by (simp add: get_routes_ios_lines_def s1 s2 ospf_route_def bindE_simps)
qed

theorem ospf_continuation_line_witness:
  "get_routes_ios_lines ''OSPF''
     [''O    172.16.5.0/24'', ''[110/2] via 10.0.0.1, TenGigabitEthernet0/1''] =
     Inr [\<lparr>rt_route = ''172.16.5.0/24'', rt_kind = Str ''OSPF'',
           rt_next_hop = Some [\<lparr>nh_address = Some ''10.0.0.1'',
                                nh_interface = Some ''TenGigabitEthernet0/1''\<rparr>]\<rparr>]"
proof -
  let ?l1 = "''O    172.16.5.0/24''"
  let ?l2 = "''[110/2] via 10.0.0.1, TenGigabitEthernet0/1''"
  have h1: "py_lower ''OSPF'' = ''ospf''"
    by code_simp
  have h2: "startswith ?l1 ''O '' \<or> startswith ?l1 ''O*''"
    by code_simp
  have h3: "py_split ?l1 = [''O'', ''172.16.5.0/24'']"
    by code_simp
  have h4: "\<not> (startswith ?l2 ''O '' \<or> startswith ?l2 ''O*'')"
    by code_simp
  have sp: "py_split ?l2 = [''[110/2]'', ''via'', ''10.0.0.1,'', ''TenGigabitEthernet0/1'']"
    by code_simp
  have h5: "3 \<le> length (py_split ?l2)"
    unfolding sp by simp
  have h6: "is_routable_for_collection ''172.16.5.0/24'' False = Inr True"
    by code_simp
  have r: "py_replace '','' '''' ''10.0.0.1,'' = ''10.0.0.1''"
    by code_simp
  show ?thesis
    using ospf_continuation_line [OF h1 h2 h3 h4 h5 h6] unfolding sp by (simp add: r)
qed

section \<open>Next hops of the routes\<close>















section \<open>Dialect B: two blocks\<close>

lemma ubest_split_nonempty:
  assumes "contains l ''ubest''"
  shows "py_split l \<noteq> []"
proof
  assume "py_split l = []"
  then have "\<forall>c \<in> set l. is_space c"
    by (rule py_split_Nil)
  moreover have "CHR ''u'' \<in> set l"
    using contains_set [OF assms] by simp
  ultimately have "is_space CHR ''u''"
    by blast
  then show False
    by (simp add: is_space_def)
qed

lemma nxos_line_ubest:
  assumes "contains u ''ubest''"
    and "is_routable_for_collection (ubest_prefix u) (py_lower rt = ''connected'') = Inr keep"
  shows "nxos_line rt u st =
     Inr (let st2 = (case nx_route_obj st of Some r \<Rightarrow> nxos_flush r st | None \<Rightarrow> st)
                      \<lparr>nx_next_hops := []\<rparr>
          in if keep
             then st2\<lparr>nx_heap := nx_heap st2 @
                        [\<lparr>rt_route = ubest_prefix u, rt_kind = kind_nxos rt, rt_next_hop = None\<rparr>],
                      nx_route_obj := Some (length (nx_heap st2))\<rparr>
             else st2)"
proof -
  have i: "py_index (py_split u) 0 = Inr (hd (py_split u))"
    using ubest_split_nonempty [OF assms(1)] by (rule py_index_0)
  have r: "is_routable_for_collection (py_replace '','' '''' (hd (py_split u)))
             (py_lower rt = ''connected'') = Inr keep"
    using assms(2) by (simp add: ubest_prefix_def)
  show ?thesis
    unfolding nxos_line_def Let_def if_P [OF assms(1)] i bindE_Inr r ubest_prefix_def
    by (cases keep) simp_all
qed

lemma nxos_line_via:
  assumes "\<not> contains l ''ubest''" and "nx_route_obj st = Some r"
    and "contains l ''via'' \<longrightarrow> 2 \<le> length (py_split (py_replace '','' '''' l))"
  shows "nxos_line rt l st =
     Inr (st\<lparr>nx_next_hops := nx_next_hops st @ block_hops rt [l]\<rparr>)"
proof (cases "contains l ''via''")
  case False
  with assms show ?thesis
    by (simp add: nxos_line_def block_hops_def)
next
  case True
  with assms(3) have "1 < length (py_split (py_replace '','' '''' l))"
    by simp
  then have "py_index (py_split (py_replace '','' '''' l)) 1
             = Inr (py_split (py_replace '','' '''' l) ! 1)"
    using py_index_nat [of 1 "py_split (py_replace '','' '''' l)"] by simp
  with True assms(1,2) show ?thesis
    by (simp add: nxos_line_def block_hops_def via_hop_def Let_def py_index_0 split_on_nonempty
          bindE_simps)
qed

lemma block_hops_Cons: "block_hops rt (l # ls) = block_hops rt [l] @ block_hops rt ls"
  by (simp add: block_hops_def)

lemma nxos_via_block:
  assumes "\<forall>l \<in> set vs. \<not> contains l ''ubest''" and "nx_route_obj st = Some r"
    and "\<forall>l \<in> set vs. contains l ''via'' \<longrightarrow> 2 \<le> length (py_split (py_replace '','' '''' l))"
  shows "foldE (nxos_line rt) vs st = Inr (st\<lparr>nx_next_hops := nx_next_hops st @ block_hops rt vs\<rparr>)"
  using assms
proof (induction vs arbitrary: st)
  case Nil
  then show ?case
    by (simp add: block_hops_def)
next
  case (Cons l ls)
  have step: "nxos_line rt l st = Inr (st\<lparr>nx_next_hops := nx_next_hops st @ block_hops rt [l]\<rparr>)"
    using Cons.prems by (intro nxos_line_via) auto
  have "foldE (nxos_line rt) ls (st\<lparr>nx_next_hops := nx_next_hops st @ block_hops rt [l]\<rparr>)
        = Inr (st\<lparr>nx_next_hops := (nx_next_hops st @ block_hops rt [l]) @ block_hops rt ls\<rparr>)"
    using Cons.prems by (subst Cons.IH) auto
  then show ?case
    by (simp add: step block_hops_Cons [of rt l ls] bindE_simps)
qed

lemma nxos_skipped_block:
  assumes "\<forall>l \<in> set vs. \<not> contains l ''ubest''" and "nx_route_obj st = None"
  shows "foldE (nxos_line rt) vs st = Inr st"
  using assms by (induction vs) (auto simp: nxos_line_def bindE_simps)

text \<open>
  C5, as the specification states it, fails in three ways that the code intends: a block
  whose prefix fails the filter gives no route; a last block with no \<^verbatim>\<open>via\<close> line gives
  no route; and a \<^verbatim>\<open>via\<close> line of one token raises \<^verbatim>\<open>IndexError\<close>.
\<close>

theorem nxos_two_blocks_counterexample:
  "get_routes_nxos_lines ''static''
     [''8.8.8.0/24, ubest/mbest: 1/0'',
      ''    *via 10.0.0.1, [1/0], 3w0d, static'',
      ''10.2.0.0/16, ubest/mbest: 1/0'',
      ''    *via 10.0.0.2, [1/0], 3w0d, static''] =
   Inr [\<lparr>rt_route = ''10.2.0.0/16'', rt_kind = Str ''Static'',
         rt_next_hop = Some [\<lparr>nh_address = Some ''10.0.0.2'', nh_interface = None\<rparr>]\<rparr>]
   \<and> get_routes_nxos_lines ''static''
     [''10.1.0.0/16, ubest/mbest: 1/0'',
      ''    *via 10.0.0.1, [1/0], 3w0d, static'',
      ''10.2.0.0/16, ubest/mbest: 1/0''] =
   Inr [\<lparr>rt_route = ''10.1.0.0/16'', rt_kind = Str ''Static'',
         rt_next_hop = Some [\<lparr>nh_address = Some ''10.0.0.1'', nh_interface = None\<rparr>]\<rparr>]
   \<and> get_routes_nxos_lines ''static''
     [''10.1.0.0/16, ubest/mbest: 1/0'',
      ''    *via'',
      ''10.2.0.0/16, ubest/mbest: 1/0'',
      ''    *via 10.0.0.2, [1/0], 3w0d, static''] = Inl IndexError"
proof -
  have "get_routes_nxos_lines ''static''
     [''8.8.8.0/24, ubest/mbest: 1/0'',
      ''    *via 10.0.0.1, [1/0], 3w0d, static'',
      ''10.2.0.0/16, ubest/mbest: 1/0'',
      ''    *via 10.0.0.2, [1/0], 3w0d, static''] =
   Inr [\<lparr>rt_route = ''10.2.0.0/16'', rt_kind = Str ''Static'',
         rt_next_hop = Some [\<lparr>nh_address = Some ''10.0.0.2'', nh_interface = None\<rparr>]\<rparr>]"
    by code_simp
  moreover have "get_routes_nxos_lines ''static''
     [''10.1.0.0/16, ubest/mbest: 1/0'',
      ''    *via 10.0.0.1, [1/0], 3w0d, static'',
      ''10.2.0.0/16, ubest/mbest: 1/0''] =
   Inr [\<lparr>rt_route = ''10.1.0.0/16'', rt_kind = Str ''Static'',
         rt_next_hop = Some [\<lparr>nh_address = Some ''10.0.0.1'', nh_interface = None\<rparr>]\<rparr>]"
    by code_simp
  moreover have "get_routes_nxos_lines ''static''
     [''10.1.0.0/16, ubest/mbest: 1/0'',
      ''    *via'',
      ''10.2.0.0/16, ubest/mbest: 1/0'',
      ''    *via 10.0.0.2, [1/0], 3w0d, static''] = Inl IndexError"
    by code_simp
  ultimately show ?thesis by simp
qed

text \<open>
  What the amended claim leaves out: when the first block passes the filter and the
  second fails it, \<^verbatim>\<open>route_obj\<close> still is the first route, which is appended a second
  time with the \<^verbatim>\<open>via\<close> lines of the second block; both entries are one dictionary.
\<close>

lemma nxos_stale_route_obj:
  "get_routes_nxos_lines ''static''
     [''10.1.0.0/16, ubest/mbest: 1/0'',
      ''    *via 10.0.0.1, [1/0], 3w0d, static'',
      ''8.8.8.0/24, ubest/mbest: 1/0'',
      ''    *via 10.0.0.2, [1/0], 3w0d, static''] =
   Inr [\<lparr>rt_route = ''10.1.0.0/16'', rt_kind = Str ''Static'',
         rt_next_hop = Some [\<lparr>nh_address = Some ''10.0.0.2'', nh_interface = None\<rparr>]\<rparr>,
        \<lparr>rt_route = ''10.1.0.0/16'', rt_kind = Str ''Static'',
         rt_next_hop = Some [\<lparr>nh_address = Some ''10.0.0.2'', nh_interface = None\<rparr>]\<rparr>]"
  by code_simp

text \<open>
  C5, amended. Take an input of dialect B that is a \<^verbatim>\<open>ubest\<close> line, lines without
  \<^verbatim>\<open>ubest\<close>, a second \<^verbatim>\<open>ubest\<close> line and again lines without \<^verbatim>\<open>ubest\<close>, where
  every \<^verbatim>\<open>via\<close> line has at least two tokens, the second prefix passes the filter and
  the second block has a \<^verbatim>\<open>via\<close> line. If the first prefix passes the filter, the
  parser produces two routes, each with the next hops of exactly the \<^verbatim>\<open>via\<close> lines
  between its own \<^verbatim>\<open>ubest\<close> line and the next one or the end of the input. If the first
  prefix fails the filter, the parser produces the route of the second block only, with
  the next hops of exactly the \<^verbatim>\<open>via\<close> lines of the second block.
\<close>

theorem nxos_two_blocks:
  assumes u1: "contains u1 ''ubest''" and u2: "contains u2 ''ubest''"
    and nu: "\<forall>l \<in> set (vs1 @ vs2). \<not> contains l ''ubest''"
    and wf: "\<forall>l \<in> set (vs1 @ vs2).
               contains l ''via'' \<longrightarrow> 2 \<le> length (py_split (py_replace '','' '''' l))"
    and k2: "is_routable_for_collection (ubest_prefix u2) (py_lower rt = ''connected'') = Inr True"
    and h2: "block_hops rt vs2 \<noteq> []"
  shows "(is_routable_for_collection (ubest_prefix u1) (py_lower rt = ''connected'') = Inr True \<longrightarrow>
           get_routes_nxos_lines rt ([u1] @ vs1 @ [u2] @ vs2) =
             Inr [\<lparr>rt_route = ubest_prefix u1, rt_kind = kind_nxos rt,
                   rt_next_hop = Some (block_hops rt vs1)\<rparr>,
                  \<lparr>rt_route = ubest_prefix u2, rt_kind = kind_nxos rt,
                   rt_next_hop = Some (block_hops rt vs2)\<rparr>])
       \<and> (is_routable_for_collection (ubest_prefix u1) (py_lower rt = ''connected'') = Inr False \<longrightarrow>
           get_routes_nxos_lines rt ([u1] @ vs1 @ [u2] @ vs2) =
             Inr [\<lparr>rt_route = ubest_prefix u2, rt_kind = kind_nxos rt,
                   rt_next_hop = Some (block_hops rt vs2)\<rparr>])"
proof (intro conjI impI)
  let ?s0 = "\<lparr>nx_heap = [], nx_routes = [], nx_next_hops = [], nx_route_obj = None\<rparr>"
  let ?R1 = "\<lparr>rt_route = ubest_prefix u1, rt_kind = kind_nxos rt, rt_next_hop = None\<rparr>"
  let ?R2 = "\<lparr>rt_route = ubest_prefix u2, rt_kind = kind_nxos rt, rt_next_hop = None\<rparr>"
  have nu1: "\<forall>l \<in> set vs1. \<not> contains l ''ubest''"
    and nu2: "\<forall>l \<in> set vs2. \<not> contains l ''ubest''"
    using nu by auto
  have wf1: "\<forall>l \<in> set vs1. contains l ''via'' \<longrightarrow> 2 \<le> length (py_split (py_replace '','' '''' l))"
    and wf2: "\<forall>l \<in> set vs2. contains l ''via'' \<longrightarrow> 2 \<le> length (py_split (py_replace '','' '''' l))"
    using wf by auto
  {
    assume k1: "is_routable_for_collection (ubest_prefix u1) (py_lower rt = ''connected'') = Inr True"
    let ?a = "\<lparr>nx_heap = [?R1], nx_routes = [], nx_next_hops = [], nx_route_obj = Some 0\<rparr>"
    let ?b = "\<lparr>nx_heap = [?R1], nx_routes = [], nx_next_hops = block_hops rt vs1,
               nx_route_obj = Some 0\<rparr>"
    let ?c = "\<lparr>nx_heap = [?R1\<lparr>rt_next_hop := Some (block_hops rt vs1)\<rparr>, ?R2], nx_routes = [0],
               nx_next_hops = [], nx_route_obj = Some (Suc 0)\<rparr>"
    let ?d = "\<lparr>nx_heap = [?R1\<lparr>rt_next_hop := Some (block_hops rt vs1)\<rparr>, ?R2], nx_routes = [0],
               nx_next_hops = block_hops rt vs2, nx_route_obj = Some (Suc 0)\<rparr>"
    have a: "nxos_line rt u1 ?s0 = Inr ?a"
      by (simp add: nxos_line_ubest [OF u1 k1])
    have b: "foldE (nxos_line rt) vs1 ?a = Inr ?b"
      using nxos_via_block [OF nu1 _ wf1, of ?a 0 rt] by simp
    have c: "nxos_line rt u2 ?b = Inr ?c"
      by (simp add: nxos_line_ubest [OF u2 k2] nxos_flush_def)
    have d: "foldE (nxos_line rt) vs2 ?c = Inr ?d"
      using nxos_via_block [OF nu2 _ wf2, of ?c "Suc 0" rt] by simp
    have "foldE (nxos_line rt) ([u1] @ vs1 @ [u2] @ vs2) ?s0 = Inr ?d"
      by (simp only: foldE_append foldE.simps a b c d bindE_Inr)
    then show "get_routes_nxos_lines rt ([u1] @ vs1 @ [u2] @ vs2) =
             Inr [\<lparr>rt_route = ubest_prefix u1, rt_kind = kind_nxos rt,
                   rt_next_hop = Some (block_hops rt vs1)\<rparr>,
                  \<lparr>rt_route = ubest_prefix u2, rt_kind = kind_nxos rt,
                   rt_next_hop = Some (block_hops rt vs2)\<rparr>]"
      using h2 by (simp add: get_routes_nxos_lines_def nxos_finish_def nxos_flush_def bindE_simps)
  }
  {
    assume k1: "is_routable_for_collection (ubest_prefix u1) (py_lower rt = ''connected'') = Inr False"
    let ?c = "\<lparr>nx_heap = [?R2], nx_routes = [], nx_next_hops = [], nx_route_obj = Some 0\<rparr>"
    let ?d = "\<lparr>nx_heap = [?R2], nx_routes = [], nx_next_hops = block_hops rt vs2,
               nx_route_obj = Some 0\<rparr>"
    have a: "nxos_line rt u1 ?s0 = Inr ?s0"
      by (simp add: nxos_line_ubest [OF u1 k1])
    have b: "foldE (nxos_line rt) vs1 ?s0 = Inr ?s0"
      by (rule nxos_skipped_block [OF nu1]) simp
    have c: "nxos_line rt u2 ?s0 = Inr ?c"
      by (simp add: nxos_line_ubest [OF u2 k2])
    have d: "foldE (nxos_line rt) vs2 ?c = Inr ?d"
      using nxos_via_block [OF nu2 _ wf2, of ?c 0 rt] by simp
    have "foldE (nxos_line rt) ([u1] @ vs1 @ [u2] @ vs2) ?s0 = Inr ?d"
      by (simp only: foldE_append foldE.simps a b c d bindE_Inr)
    then show "get_routes_nxos_lines rt ([u1] @ vs1 @ [u2] @ vs2) =
             Inr [\<lparr>rt_route = ubest_prefix u2, rt_kind = kind_nxos rt,
                   rt_next_hop = Some (block_hops rt vs2)\<rparr>]"
      using h2 by (simp add: get_routes_nxos_lines_def nxos_finish_def nxos_flush_def bindE_simps)
  }
qed

theorem nxos_two_blocks_witness:
  "get_routes_nxos_lines ''static''
     [''10.1.0.0/16, ubest/mbest: 1/0'',
      ''    *via 10.0.0.1, [1/0], 3w0d, static'',
      ''    *via 10.0.0.3, [1/0], 3w0d, static'',
      ''10.2.0.0/16, ubest/mbest: 1/0'',
      ''    *via 10.0.0.2, [1/0], 3w0d, static''] =
   Inr [\<lparr>rt_route = ''10.1.0.0/16'', rt_kind = Str ''Static'',
         rt_next_hop = Some [\<lparr>nh_address = Some ''10.0.0.1'', nh_interface = None\<rparr>,
                             \<lparr>nh_address = Some ''10.0.0.3'', nh_interface = None\<rparr>]\<rparr>,
        \<lparr>rt_route = ''10.2.0.0/16'', rt_kind = Str ''Static'',
         rt_next_hop = Some [\<lparr>nh_address = Some ''10.0.0.2'', nh_interface = None\<rparr>]\<rparr>]"
proof -
  let ?u1 = "''10.1.0.0/16, ubest/mbest: 1/0''"
  let ?u2 = "''10.2.0.0/16, ubest/mbest: 1/0''"
  let ?vs1 = "[''    *via 10.0.0.1, [1/0], 3w0d, static'', ''    *via 10.0.0.3, [1/0], 3w0d, static'']"
  let ?vs2 = "[''    *via 10.0.0.2, [1/0], 3w0d, static'']"
  have h1: "contains ?u1 ''ubest''"
    by code_simp
  have h2: "contains ?u2 ''ubest''"
    by code_simp
  have h3: "\<forall>l \<in> set (?vs1 @ ?vs2). \<not> contains l ''ubest''"
    by code_simp
  have h4: "\<forall>l \<in> set (?vs1 @ ?vs2).
              contains l ''via'' \<longrightarrow> 2 \<le> length (py_split (py_replace '','' '''' l))"
    by code_simp
  have h5: "is_routable_for_collection (ubest_prefix ?u2) (py_lower ''static'' = ''connected'') = Inr True"
    by code_simp
  have b2: "block_hops ''static'' ?vs2 = [\<lparr>nh_address = Some ''10.0.0.2'', nh_interface = None\<rparr>]"
    by code_simp
  have h6: "block_hops ''static'' ?vs2 \<noteq> []"
    unfolding b2 by simp
  have h7: "is_routable_for_collection (ubest_prefix ?u1) (py_lower ''static'' = ''connected'') = Inr True"
    by code_simp
  have b1: "block_hops ''static'' ?vs1 = [\<lparr>nh_address = Some ''10.0.0.1'', nh_interface = None\<rparr>,
                             \<lparr>nh_address = Some ''10.0.0.3'', nh_interface = None\<rparr>]"
    by code_simp
  have p1: "ubest_prefix ?u1 = ''10.1.0.0/16''"
    by code_simp
  have p2: "ubest_prefix ?u2 = ''10.2.0.0/16''"
    by code_simp
  have k: "kind_nxos ''static'' = Str ''Static''"
    by code_simp
  show ?thesis
    using nxos_two_blocks [OF h1 h2 h3 h4 h5 h6] h7 unfolding b1 b2 p1 p2 k by simp
qed

section \<open>Lines of another shape\<close>

lemma inventory_pid_line:
  assumes "startswith line ''PID:''"
    and "2 \<le> length (py_split (py_replace '','' '''' line))"
    and "length (py_split (py_replace '','' '''' line)) \<le> 4"
    and "is_name st = Some n" and "is_descr st = Some d"
  shows "inventory_line line st =
     Inr (st\<lparr>is_inventory := is_inventory st @
            [\<lparr>inv_name = n, inv_description = d,
              inv_pid = py_split (py_replace '','' '''' line) ! 1,
              inv_vid = None, inv_sn = None\<rparr>]\<rparr>)"
proof -
  have nn: "\<not> startswith line ''NAME:''"
    using assms(1) by (cases line) (auto simp: startswith_def)
  have i1: "py_index (py_split (py_replace '','' '''' line)) 1
            = Inr (py_split (py_replace '','' '''' line) ! 1)"
    using assms(2) py_index_nat [of 1 "py_split (py_replace '','' '''' line)"] by simp
  show ?thesis
    using assms(1,3,4,5) nn by (simp add: inventory_line_def Let_def i1 bindE_simps)
qed

lemma ospf_neighbor_line_cases:
  "ospf_neighbor_line line acc = Inl ValueError
   \<or> (length (py_split (py_replace '' -'' '''' line)) = 6 \<and> (\<exists>acc'. ospf_neighbor_line line acc = Inr acc'))"
  by (auto simp: ospf_neighbor_line_def split: list.splits)

lemma ospf_neighbor_rows:
  assumes "\<exists>l \<in> set lines. length (py_split (py_replace '' -'' '''' l)) \<noteq> 6"
  shows "foldE ospf_neighbor_line lines acc = Inl ValueError"
  using assms
proof (induction lines arbitrary: acc)
  case Nil
  then show ?case by simp
next
  case (Cons l ls)
  from ospf_neighbor_line_cases [of l acc] show ?case
  proof
    assume "ospf_neighbor_line l acc = Inl ValueError"
    then show ?thesis by (simp add: bindE_simps)
  next
    assume ok: "length (py_split (py_replace '' -'' '''' l)) = 6
                \<and> (\<exists>acc'. ospf_neighbor_line l acc = Inr acc')"
    then obtain acc' where acc': "ospf_neighbor_line l acc = Inr acc'"
      by blast
    from ok Cons.prems have "\<exists>l \<in> set ls. length (py_split (py_replace '' -'' '''' l)) \<noteq> 6"
      by auto
    then have "foldE ospf_neighbor_line ls acc' = Inl ValueError"
      by (rule Cons.IH)
    then show ?thesis by (simp add: acc' bindE_simps)
  qed
qed

lemma bgp_neighbor_skipped:
  assumes "py_split line = [] \<or> IPv4Address (hd (py_split line)) = Inl e"
  shows "bgp_neighbor_line line acc = Inr acc"
proof (cases "py_split line = []")
  case True
  then show ?thesis
    by (simp add: bgp_neighbor_line_def py_index_def bindE_simps)
next
  case False
  with assms have "IPv4Address (hd (py_split line)) = Inl e"
    by simp
  with False show ?thesis
    by (simp add: bgp_neighbor_line_def py_index_0 bindE_simps)
qed

text \<open>
  C6, as the specification states it, fails on both of its examples: a \<^verbatim>\<open>PID:\<close> line
  with exactly five tokens after comma removal raises \<^verbatim>\<open>IndexError\<close>, and a row of the
  OSPF neighbor table with five columns raises \<^verbatim>\<open>ValueError\<close>.
\<close>

theorem parse_mismatch_counterexample:
  "length (py_split (py_replace '','' '''' ''PID: C3KX-PWR , VID: , SN: LIT1'')) = 5
   \<and> get_inventory_lines [name_line ''Power'' ''PS'', ''PID: C3KX-PWR , VID: , SN: LIT1'']
       = Inl IndexError
   \<and> length (py_split (py_replace '' -'' '''' ''172.31.1.2  0  FULL/DR  00:00:36  63.141.40.5'')) = 5
   \<and> foldE ospf_neighbor_line [''172.31.1.2  0  FULL/DR  00:00:36  63.141.40.5''] []
       = Inl ValueError"
proof -
  have "length (py_split (py_replace '','' '''' ''PID: C3KX-PWR , VID: , SN: LIT1'')) = 5"
    by code_simp
  moreover have "get_inventory_lines [name_line ''Power'' ''PS'', ''PID: C3KX-PWR , VID: , SN: LIT1'']
       = Inl IndexError"
    by code_simp
  moreover have "length (py_split (py_replace '' -'' '''' ''172.31.1.2  0  FULL/DR  00:00:36  63.141.40.5'')) = 5"
    by code_simp
  moreover have "foldE ospf_neighbor_line [''172.31.1.2  0  FULL/DR  00:00:36  63.141.40.5''] []
       = Inl ValueError"
    by code_simp
  ultimately show ?thesis by simp
qed

text \<open>
  C6, amended. The parsers are best-effort for some lines of another shape only. In
  \<^verbatim>\<open>get_inventory\<close>, a \<^verbatim>\<open>PID:\<close> line with two, three or four tokens after comma
  removal, coming after a \<^verbatim>\<open>NAME:\<close> line, leaves vid and sn null and its record is still
  appended. In \<^verbatim>\<open>get_route_neighbors\<close>, a row of the BGP table that is blank or whose
  first token is no IPv4 address is skipped; but a row of the OSPF table that does not
  split into exactly six columns makes the scan of that table raise \<^verbatim>\<open>ValueError\<close>.
\<close>

theorem parse_mismatch:
  "(startswith line ''PID:''
      \<and> 2 \<le> length (py_split (py_replace '','' '''' line))
      \<and> length (py_split (py_replace '','' '''' line)) \<le> 4
      \<and> is_name st = Some n \<and> is_descr st = Some d
    \<longrightarrow> inventory_line line st =
          Inr (st\<lparr>is_inventory := is_inventory st @
                 [\<lparr>inv_name = n, inv_description = d,
                   inv_pid = py_split (py_replace '','' '''' line) ! 1,
                   inv_vid = None, inv_sn = None\<rparr>]\<rparr>))
   \<and> (py_split row = [] \<or> IPv4Address (hd (py_split row)) = Inl e
    \<longrightarrow> bgp_neighbor_line row acc = Inr acc)
   \<and> ((\<exists>l \<in> set rows. length (py_split (py_replace '' -'' '''' l)) \<noteq> 6)
    \<longrightarrow> foldE ospf_neighbor_line rows acc = Inl ValueError)"
  using inventory_pid_line bgp_neighbor_skipped ospf_neighbor_rows by blast

theorem parse_mismatch_witness:
  "get_inventory_lines [name_line ''Power'' ''PS'', ''PID: C3KX-PWR , VID: , SN:'']
     = Inr [\<lparr>inv_name = ''Power'', inv_description = ''PS'', inv_pid = ''C3KX-PWR'',
             inv_vid = None, inv_sn = None\<rparr>]
   \<and> IPv4Address (hd (py_split ''Neighbor V AS MsgRcvd'')) = Inl AddressValueError
   \<and> bgp_neighbor_line ''Neighbor V AS MsgRcvd'' [] = Inr []
   \<and> foldE ospf_neighbor_line
        [''172.31.1.2  0  FULL/ -  00:00:36  63.141.40.5  Te0/1/2'', ''172.31.1.3  0  FULL/DR''] []
      = Inl ValueError"
proof -
  let ?pid = "''PID: C3KX-PWR , VID: , SN:''"
  let ?st = "\<lparr>is_inventory = [], is_name = Some ''Power'', is_descr = Some ''PS''\<rparr>"
  have n: "inventory_line (name_line ''Power'' ''PS'')
             \<lparr>is_inventory = [], is_name = None, is_descr = None\<rparr> = Inr ?st"
    by code_simp
  have sp: "py_split (py_replace '','' '''' ?pid) = [''PID:'', ''C3KX-PWR'', ''VID:'', ''SN:'']"
    by code_simp
  have p: "startswith ?pid ''PID:''
      \<and> 2 \<le> length (py_split (py_replace '','' '''' ?pid))
      \<and> length (py_split (py_replace '','' '''' ?pid)) \<le> 4
      \<and> is_name ?st = Some ''Power'' \<and> is_descr ?st = Some ''PS''"
    unfolding sp by (simp add: startswith_def)
  have a: "IPv4Address (hd (py_split ''Neighbor V AS MsgRcvd'')) = Inl AddressValueError"
    by code_simp
  have c: "\<exists>l \<in> set [''172.31.1.2  0  FULL/ -  00:00:36  63.141.40.5  Te0/1/2'', ''172.31.1.3  0  FULL/DR''].
             length (py_split (py_replace '' -'' '''' l)) \<noteq> 6"
    by code_simp
  have "inventory_line ?pid ?st =
          Inr (?st\<lparr>is_inventory := is_inventory ?st @
                 [\<lparr>inv_name = ''Power'', inv_description = ''PS'',
                   inv_pid = py_split (py_replace '','' '''' ?pid) ! 1,
                   inv_vid = None, inv_sn = None\<rparr>]\<rparr>)"
    using p parse_mismatch [where line = ?pid and st = ?st and n = "''Power''" and d = "''PS''"]
    by blast
  then have i: "get_inventory_lines [name_line ''Power'' ''PS'', ?pid]
     = Inr [\<lparr>inv_name = ''Power'', inv_description = ''PS'', inv_pid = ''C3KX-PWR'',
             inv_vid = None, inv_sn = None\<rparr>]"
    unfolding sp by (simp add: get_inventory_lines_def n bindE_simps)
  have b: "bgp_neighbor_line ''Neighbor V AS MsgRcvd'' [] = Inr []"
    using a parse_mismatch [where row = "''Neighbor V AS MsgRcvd''" and e = AddressValueError and acc = "[]"]
    by blast
  have o: "foldE ospf_neighbor_line
        [''172.31.1.2  0  FULL/ -  00:00:36  63.141.40.5  Te0/1/2'', ''172.31.1.3  0  FULL/DR''] []
      = Inl ValueError"
    using c parse_mismatch [where acc = "[]" and rows = "[''172.31.1.2  0  FULL/ -  00:00:36  63.141.40.5  Te0/1/2'', ''172.31.1.3  0  FULL/DR'']"]
    by blast
  show ?thesis
    using i a b o by simp
qed

end
